theory Spec2Isabelle
  imports Complex_Main "HOL-Library.Sublist" "HOL-Library.AList"
begin

section \<open>The ConvertEverything API client (src/src/client.ts)\<close>

text \<open>
  A shallow embedding of the client class. JavaScript strings are \<open>string\<close>s whose
  characters are the code units below 256; numbers that the code uses as integers
  (milliseconds, attempt counters, HTTP status codes) are \<open>int\<close> or \<open>nat\<close>, and the
  value \<open>NaN\<close> of \<open>parseInt\<close> is \<open>None\<close>. Errors are values of the type \<open>error\<close>;
  an asynchronous method returns its result together with the list of the outbound
  fetches and the sleeps it performed, in order. What the network, the clock and the
  platform libraries answer is an explicit argument.
\<close>

subsection \<open>Constants\<close>

definition DEFAULT_MAX_RETRIES :: nat where
  "DEFAULT_MAX_RETRIES = 3"

definition DEFAULT_RETRY_DELAY :: int where
  "DEFAULT_RETRY_DELAY = 1000"

definition RETRYABLE_STATUS_CODES :: "nat list" where
  "RETRYABLE_STATUS_CODES = [408, 429, 500, 502, 503, 504]"

definition FORMAT_CACHE_TTL :: int where
  "FORMAT_CACHE_TTL = 3600000"

definition DEFAULT_BASE_URL :: string where
  "DEFAULT_BASE_URL = ''https://converteverything.io''"

definition DEFAULT_TIMEOUT :: int where
  "DEFAULT_TIMEOUT = 300000"

definition CLIENT_VERSION :: string where
  "CLIENT_VERSION = ''1.2.0''"

subsection \<open>\<open>parseInt(s, 10)\<close> and truthiness of numbers\<close>

text \<open>
  A JavaScript number is a double. The integers among the doubles are those of magnitude
  below \<open>2^53\<close> and, beyond, those with 53 significant bits followed by zero bits.
  \<open>toDouble\<close> gives the double that stands for an integer: the integer itself when its
  magnitude is below \<open>2^53\<close>, and otherwise the nearest integer with 53 significant
  bits, the one with an even last significant bit when two are equally near. The model
  has no infinite number, which JavaScript gives to a magnitude beyond the largest double
  (about \<open>1.8 * 10^308\<close>); the results about a number read from a string are stated for
  magnitudes below \<open>2^53\<close>, where every operation on doubles is exact.
\<close>

fun bitLength :: "nat \<Rightarrow> nat" where
  "bitLength n = (if n = 0 then 0 else Suc (bitLength (n div 2)))"

declare bitLength.simps [simp del]

definition toDouble :: "int \<Rightarrow> int" where
  "toDouble n =
     (let a = nat \<bar>n\<bar> in
      if a < 2 ^ 53 then n
      else (let e = bitLength a - 53;
                q = a div 2 ^ e;
                r = a mod 2 ^ e;
                q' = (if 2 ^ e < 2 * r \<or> (2 * r = 2 ^ e \<and> odd q) then q + 1 else q)
            in sgn n * int (q' * 2 ^ e)))"

text \<open>
  \<open>parseInt\<close> skips leading white space, reads an optional sign and the longest run of
  decimal digits; with no digit the result is \<open>NaN\<close>, and otherwise it is the double
  that stands for the integer read.
\<close>

definition isWhiteSpace :: "char \<Rightarrow> bool" where
  "isWhiteSpace c = ((of_char c :: nat) \<in> set [9, 10, 11, 12, 13, 32, 160])"

definition isDigit :: "char \<Rightarrow> bool" where
  "isDigit c = (48 \<le> (of_char c :: nat) \<and> (of_char c :: nat) \<le> 57)"

definition digitVal :: "char \<Rightarrow> int" where
  "digitVal c = int (of_char c) - 48"

fun decValue :: "int \<Rightarrow> string \<Rightarrow> int" where
  "decValue acc [] = acc"
| "decValue acc (c # cs) = decValue (acc * 10 + digitVal c) cs"

definition parseInt :: "string \<Rightarrow> int option" where
  "parseInt s =
     (let t = dropWhile isWhiteSpace s;
          neg = (t \<noteq> [] \<and> hd t = CHR ''-'');
          u = (if t \<noteq> [] \<and> (hd t = CHR ''-'' \<or> hd t = CHR ''+'') then tl t else t);
          ds = takeWhile isDigit u
      in if ds = [] then None
         else Some (toDouble (if neg then - decValue 0 ds else decValue 0 ds)))"

text \<open>\<open>x || undefined\<close> on a number: \<open>NaN\<close> and \<open>0\<close> are falsy.\<close>

definition orUndefined :: "int option \<Rightarrow> int option" where
  "orUndefined x = (case x of None \<Rightarrow> None | Some n \<Rightarrow> if n = 0 then None else Some n)"

text \<open>\<open>s || d\<close> on an optional string: \<open>null\<close>, \<open>undefined\<close> and the empty string are falsy.\<close>

definition orElse :: "string option \<Rightarrow> string \<Rightarrow> string" where
  "orElse x d = (case x of None \<Rightarrow> d | Some s \<Rightarrow> if s = [] then d else s)"

text \<open>The decimal numeral of a natural number, as a server writes a number of seconds.\<close>

definition digitChar :: "nat \<Rightarrow> char" where
  "digitChar d = char_of (48 + d)"

fun decimal :: "nat \<Rightarrow> string" where
  "decimal n = (if n < 10 then [digitChar n] else decimal (n div 10) @ [digitChar (n mod 10)])"

declare decimal.simps [simp del]

subsection \<open>Errors, requests, responses\<close>

datatype error =
    ApiKeyRequired
  | InvalidApiKeyFormat
  | InvalidBaseUrl string
  | FetchFailed string string
  | RateLimitExceeded int
  | RequestFailedAfterRetries
  | ApiError string
  | BodyUnreadable
  | InvalidConversionId
  | PathNullBytes
  | FileNotFound string
  | NotAFile string
  | PathTraversal
  | UnsupportedTargetFormat string
  | FileTooLarge
  | ConversionNotComplete string "string option"
  | DownloadUrlNotAvailable
  | DownloadExpired
  | DownloadFailed nat string
  | ConversionTimedOut int string
  | CanOnlyRetryFailed string
  | RetryGuidance string string string string

text \<open>
  \<open>FetchFailed name message\<close> is an error thrown by \<open>fetch\<close>; every other error is
  made with \<open>new Error(...)\<close> and has the name \<open>Error\<close> (\<open>BodyUnreadable\<close>, thrown when a body
  cannot be decoded, has \<open>SyntaxError\<close>).
\<close>

fun errorName :: "error \<Rightarrow> string" where
  "errorName (FetchFailed n m) = n"
| "errorName BodyUnreadable = ''SyntaxError''"
| "errorName e = ''Error''"

definition abortError :: error where
  "abortError = FetchFailed ''AbortError'' ''This operation was aborted''"

subsection \<open>What is sent and what comes back\<close>

type_synonym buffer = "nat list"

record ConversionOptions =
  bitrate :: "string option"
  crf :: "rat option"
  quality :: "rat option"
  otherKeys :: "string list"

record FormData =
  form_file :: buffer
  form_filename :: string
  form_output_format :: string
  form_options :: "ConversionOptions option"

text \<open>The \<open>RequestInit\<close> argument of \<open>fetch\<close>, without the abort signal.\<close>

record RequestInit =
  init_method :: "string option"
  init_headers :: "(string \<times> string) list"
  init_body :: "FormData option"

definition emptyInit :: RequestInit where
  "emptyInit = \<lparr>init_method = None, init_headers = [], init_body = None\<rparr>"

text \<open>
  A response: \<open>body\<close> is the body as \<open>json()\<close> or \<open>arrayBuffer()\<close> decodes it to the
  type the caller casts it to (\<open>None\<close> when decoding throws), \<open>detail\<close> is the \<open>detail\<close>
  member of a JSON body (\<open>None\<close> when there is none), and \<open>headers\<close> lists the headers
  under the names the client asks for.
\<close>

record 'a Response =
  status :: nat
  statusText :: string
  headers :: "(string \<times> string) list"
  body :: "'a option"
  detail :: "string option"

definition ok :: "'a Response \<Rightarrow> bool" where
  "ok r = (200 \<le> status r \<and> status r \<le> 299)"

definition headers_get :: "'a Response \<Rightarrow> string \<Rightarrow> string option" where
  "headers_get r name = map_of (headers r) name"

text \<open>
  What the network does with one \<open>fetch\<close>: it answers after some milliseconds, it
  fails after some milliseconds with an error of a given name, or it stays silent. A
  logical call is given the list of the answers to its successive attempts; an
  attempt beyond the list stays unanswered.
\<close>

datatype 'a Reply = Responds int "'a Response" | Rejects int string string | Silent

definition reply_at :: "'a Reply list \<Rightarrow> nat \<Rightarrow> 'a Reply" where
  "reply_at world k = (if k < length world then world ! k else Silent)"

text \<open>
  What a call does, in order: \<open>Fetch url init\<close> is a call \<open>fetch(url, init)\<close> and
  \<open>Sleep ms\<close> is a call \<open>sleep(ms)\<close>.
\<close>

datatype event = Fetch string RequestInit | Sleep int

record SupportedFormatsResponse =
  formats :: "(string \<times> string list) list"
  total_formats :: int

record CacheEntry =
  data :: SupportedFormatsResponse
  timestamp :: int

record Client =
  apiKey :: string
  baseUrl :: string
  timeout :: int
  userAgent :: string
  maxRetries :: nat
  formatCache :: "CacheEntry option"

subsection \<open>The transport: \<open>getRetryDelay\<close>, \<open>fetchWithTimeout\<close>, \<open>fetchWithRetry\<close>\<close>

text \<open>
  \<open>getRetryDelay\<close>; the product \<open>retryAfter * 1000\<close> is a product of doubles. The
  product \<open>DEFAULT_RETRY_DELAY * Math.pow(2, attempt)\<close> has ten significant bits and is
  exact.
\<close>

definition getRetryDelay :: "nat \<Rightarrow> int option \<Rightarrow> int" where
  "getRetryDelay attempt retryAfter =
     (case retryAfter of
        Some r \<Rightarrow> if r \<noteq> 0 then toDouble (r * 1000) else DEFAULT_RETRY_DELAY * 2 ^ attempt
      | None \<Rightarrow> DEFAULT_RETRY_DELAY * 2 ^ attempt)"

text \<open>
  \<open>fetchWithTimeout\<close>: the abort timer fires after \<open>timeout\<close> milliseconds and makes
  \<open>fetch\<close> throw an \<open>AbortError\<close>; an answer that takes less than that wins.
\<close>

fun fetchWithTimeout :: "int \<Rightarrow> 'a Reply \<Rightarrow> error + 'a Response" where
  "fetchWithTimeout tmo (Responds d r) = (if d < tmo then Inr r else Inl abortError)"
| "fetchWithTimeout tmo (Rejects d n m) = (if d < tmo then Inl (FetchFailed n m) else Inl abortError)"
| "fetchWithTimeout tmo Silent = Inl abortError"

text \<open>
  One turn of the \<open>for\<close> loop of \<open>fetchWithRetry\<close> either returns the response or goes
  on to the next attempt, after a sleep or without one, and with \<open>lastError\<close> updated
  or not.
\<close>

datatype 'a flow = Return "'a Response" | Continue "int option" "error option"

text \<open>The \<open>try\<close> block, given what \<open>fetchWithTimeout\<close> produced; \<open>Inl\<close> is a throw.\<close>

definition tryBlock :: "nat \<Rightarrow> nat \<Rightarrow> error + 'a Response \<Rightarrow> error + 'a flow" where
  "tryBlock maxR attempt fetched =
     (case fetched of
        Inl e \<Rightarrow> Inl e
      | Inr response \<Rightarrow>
          if status response = 429 then
            (let retryAfter = parseInt (orElse (headers_get response ''Retry-After'') ''0'') in
             if attempt < maxR
             then Inr (Continue (Some (getRetryDelay attempt (orUndefined retryAfter))) None)
             else Inl (RateLimitExceeded
                        (case orUndefined retryAfter of None \<Rightarrow> 60 | Some n \<Rightarrow> n)))
          else if status response \<in> set RETRYABLE_STATUS_CODES \<and> attempt < maxR
          then Inr (Continue (Some (getRetryDelay attempt None)) None)
          else Inr (Return response))"

text \<open>The \<open>try\<close> block with its \<open>catch\<close> clause.\<close>

definition iteration :: "nat \<Rightarrow> nat \<Rightarrow> error + 'a Response \<Rightarrow> 'a flow" where
  "iteration maxR attempt fetched =
     (case tryBlock maxR attempt fetched of
        Inr f \<Rightarrow> f
      | Inl e \<Rightarrow>
          if attempt < maxR \<and> errorName e \<noteq> ''AbortError''
          then Continue (Some (getRetryDelay attempt None)) (Some e)
          else Continue None (Some e))"

fun sleepEvents :: "int option \<Rightarrow> event list" where
  "sleepEvents None = []"
| "sleepEvents (Some d) = [Sleep d]"

fun newLastError :: "error option \<Rightarrow> error option \<Rightarrow> error option" where
  "newLastError old None = old"
| "newLastError old (Some e) = Some e"

function fetchWithRetry_loop ::
  "nat \<Rightarrow> int \<Rightarrow> string \<Rightarrow> RequestInit \<Rightarrow> 'a Reply list \<Rightarrow> nat \<Rightarrow> error option
     \<Rightarrow> (error + 'a Response) \<times> event list"
where
  "fetchWithRetry_loop maxR tmo url init world attempt lastError =
     (if attempt \<le> maxR then
        (case iteration maxR attempt (fetchWithTimeout tmo (reply_at world attempt)) of
           Return response \<Rightarrow> (Inr response, [Fetch url init])
         | Continue slept err \<Rightarrow>
             (case fetchWithRetry_loop maxR tmo url init world (Suc attempt)
                     (newLastError lastError err) of
                (res, tr) \<Rightarrow> (res, Fetch url init # sleepEvents slept @ tr)))
      else
        (Inl (case lastError of Some e \<Rightarrow> e | None \<Rightarrow> RequestFailedAfterRetries), []))"
  by pat_completeness auto
termination
  by (relation "measure (\<lambda>(maxR, tmo, url, init, world, attempt, lastError). Suc maxR - attempt)")
     auto

declare fetchWithRetry_loop.simps [simp del]

definition fetchWithRetry ::
  "Client \<Rightarrow> string \<Rightarrow> RequestInit \<Rightarrow> 'a Reply list \<Rightarrow> string
     \<Rightarrow> (error + 'a Response) \<times> event list"
where
  "fetchWithRetry c url options world correlationId =
     fetchWithRetry_loop (maxRetries c) (timeout c) url
       (options\<lparr>init_headers :=
          AList.update ''X-Correlation-ID'' correlationId (init_headers options)\<rparr>)
       world 0 None"

text \<open>\<open>{a, b, ...h}\<close>: the entries of \<open>h\<close> override or follow those before them.\<close>

definition spread :: "(string \<times> string) list \<Rightarrow> (string \<times> string) list \<Rightarrow> (string \<times> string) list" where
  "spread base h = foldl (\<lambda>acc kv. AList.update (fst kv) (snd kv) acc) base h"

text \<open>
  \<open>request\<close>; the correlation identifier that \<open>generateCorrelationId\<close> draws from the
  clock and the random generator is an argument.
\<close>

definition request ::
  "Client \<Rightarrow> string \<Rightarrow> RequestInit \<Rightarrow> 'a Reply list \<Rightarrow> string \<Rightarrow> (error + 'a) \<times> event list"
where
  "request c endpoint options world correlationId =
     (let url = baseUrl c @ ''/api'' @ endpoint in
      case fetchWithRetry c url
             (options\<lparr>init_headers :=
                spread [(''Authorization'', ''Bearer '' @ apiKey c), (''User-Agent'', userAgent c)]
                  (init_headers options)\<rparr>)
             world correlationId of
        (Inl e, tr) \<Rightarrow> (Inl e, tr)
      | (Inr response, tr) \<Rightarrow>
          if \<not> ok response then
            (Inl (ApiError
               ((case detail response of
                   None \<Rightarrow> ''API error: '' @ decimal (status response) @ '' '' @ statusText response
                 | Some d \<Rightarrow>
                     if d = [] then ''API error: '' @ decimal (status response) @ '' '' @ statusText response
                     else d)
                @ '' (correlation-id: '' @ correlationId @ '')'')), tr)
          else (case body response of
                  None \<Rightarrow> (Inl BodyUnreadable, tr)
                | Some v \<Rightarrow> (Inr v, tr)))"

subsection \<open>String methods\<close>

definition startsWith :: "string \<Rightarrow> string \<Rightarrow> bool" where
  "startsWith s p = (take (length p) s = p)"

fun includesStr :: "string \<Rightarrow> string \<Rightarrow> bool" where
  "includesStr [] sub = (sub = [])"
| "includesStr (c # cs) sub = (startsWith (c # cs) sub \<or> includesStr cs sub)"

text \<open>\<open>s.replace(pat, rep)\<close> with a string pattern: the first occurrence only.\<close>

fun replaceFirst :: "string \<Rightarrow> string \<Rightarrow> string \<Rightarrow> string" where
  "replaceFirst [] pat rep = (if pat = [] then rep else [])"
| "replaceFirst (c # cs) pat rep =
     (if startsWith (c # cs) pat then rep @ drop (length pat) (c # cs)
      else c # replaceFirst cs pat rep)"

text \<open>\<open>s.replace(/\/+$/, "")\<close>: the slashes at the end of the string are removed.\<close>

definition stripTrailingSlashes :: "string \<Rightarrow> string" where
  "stripTrailingSlashes s = rev (dropWhile (\<lambda>c. c = CHR ''/'') (rev s))"

subsection \<open>The platform\<close>

text \<open>
  The functions of the runtime that the client calls and that are no part of this
  repository: \<open>new URL(s)\<close> succeeds exactly on \<open>urlParses\<close>, \<open>Buffer.from(s, "base64")\<close>
  is \<open>fromBase64\<close>, \<open>new Date(s).getTime()\<close> is \<open>dateParse\<close> (\<open>None\<close> for an invalid
  date), and the file system answers \<open>path.resolve\<close>, \<open>fs.existsSync\<close>,
  \<open>fs.statSync(p).isFile()\<close>, \<open>fs.realpathSync\<close>, \<open>path.isAbsolute\<close> and
  \<open>fs.readFileSync\<close>. Numbers that are not integers are rationals: \<open>roundToDouble\<close>
  is the rounding of the exact result of an arithmetic operation, or of a decimal
  literal, to the double that JavaScript computes with, and \<open>numberToString\<close> is the
  text of a number in a template string.
\<close>

record Platform =
  urlParses :: "string \<Rightarrow> bool"
  fromBase64 :: "string \<Rightarrow> buffer"
  dateParse :: "string \<Rightarrow> int option"
  path_resolve :: "string \<Rightarrow> string"
  existsSync :: "string \<Rightarrow> bool"
  isFile :: "string \<Rightarrow> bool"
  realpathSync :: "string \<Rightarrow> string"
  isAbsolute :: "string \<Rightarrow> bool"
  readFileSync :: "string \<Rightarrow> buffer"
  roundToDouble :: "rat \<Rightarrow> rat"
  numberToString :: "rat \<Rightarrow> string"

subsection \<open>Construction: \<open>sanitizeUrl\<close> and the constructor\<close>

definition sanitizeUrl :: "Platform \<Rightarrow> string \<Rightarrow> error + string" where
  "sanitizeUrl pf url =
     (let sanitized = stripTrailingSlashes url;
          sanitized = (if startsWith sanitized ''http://'' \<and> \<not> includesStr sanitized ''localhost''
                       then replaceFirst sanitized ''http://'' ''https://''
                       else sanitized)
      in if urlParses pf sanitized then Inr sanitized else Inl (InvalidBaseUrl url))"

record ClientConfig =
  cfg_apiKey :: string
  cfg_baseUrl :: "string option"
  cfg_timeout :: "int option"

text \<open>\<open>config.timeout || DEFAULT_TIMEOUT\<close>: an absent and a zero timeout give the default.\<close>

definition orDefault :: "int option \<Rightarrow> int \<Rightarrow> int" where
  "orDefault x d = (case x of None \<Rightarrow> d | Some n \<Rightarrow> if n = 0 then d else n)"

text \<open>
  The constructor. It is synchronous and contains no \<open>fetch\<close>; the list of events it
  returns is the list of the outbound calls it made.
\<close>

definition ConvertEverythingClient :: "Platform \<Rightarrow> ClientConfig \<Rightarrow> (error + Client) \<times> event list" where
  "ConvertEverythingClient pf config =
     (if cfg_apiKey config = [] then (Inl ApiKeyRequired, [])
      else if \<not> startsWith (cfg_apiKey config) ''ce_'' then (Inl InvalidApiKeyFormat, [])
      else
        (case sanitizeUrl pf (orElse (cfg_baseUrl config) DEFAULT_BASE_URL) of
           Inl e \<Rightarrow> (Inl e, [])
         | Inr u \<Rightarrow>
             (Inr \<lparr>apiKey = cfg_apiKey config,
                   baseUrl = u,
                   timeout = orDefault (cfg_timeout config) DEFAULT_TIMEOUT,
                   userAgent = ''converteverything-mcp/'' @ CLIENT_VERSION @ '' (Node.js)'',
                   maxRetries = DEFAULT_MAX_RETRIES,
                   formatCache = None\<rparr>, [])))"

subsection \<open>Reading a list of events\<close>

fun isFetch :: "event \<Rightarrow> bool" where
  "isFetch (Fetch u i) = True"
| "isFetch (Sleep d) = False"

definition fetches :: "event list \<Rightarrow> nat" where
  "fetches tr = length (filter isFetch tr)"

fun sleeps :: "event list \<Rightarrow> int list" where
  "sleeps [] = []"
| "sleeps (Fetch u i # es) = sleeps es"
| "sleeps (Sleep d # es) = d # sleeps es"

text \<open>The HTTP status that attempt \<open>k\<close> of a call receives, if it receives a response.\<close>

definition attemptStatus :: "int \<Rightarrow> 'a Reply list \<Rightarrow> nat \<Rightarrow> nat option" where
  "attemptStatus tmo world k =
     (case fetchWithTimeout tmo (reply_at world k) of Inl e \<Rightarrow> None | Inr r \<Rightarrow> Some (status r))"

subsection \<open>Values for the examples\<close>

definition exampleClient :: Client where
  "exampleClient =
     \<lparr>apiKey = ''ce_test'', baseUrl = ''https://converteverything.io'', timeout = 300000,
      userAgent = ''converteverything-mcp/1.2.0 (Node.js)'', maxRetries = 3, formatCache = None\<rparr>"

definition respond :: "nat \<Rightarrow> (string \<times> string) list \<Rightarrow> 'a option \<Rightarrow> 'a Response" where
  "respond code hs b = \<lparr>status = code, statusText = [], headers = hs, body = b, detail = None\<rparr>"

subsection \<open>Identifiers and formats\<close>

definition isHex :: "char \<Rightarrow> bool" where
  "isHex c =
     (let n = (of_char c :: nat)
      in (48 \<le> n \<and> n \<le> 57) \<or> (97 \<le> n \<and> n \<le> 102) \<or> (65 \<le> n \<and> n \<le> 70))"

text \<open>
  \<open>isValidUuid\<close>: the regular expression
  \<^verbatim>\<open>/^[0-9a-f]{8}-[0-9a-f]{4}-[0-9a-f]{4}-[0-9a-f]{4}-[0-9a-f]{12}$/i\<close>;
  in the shape below \<open>x\<close> stands for one hexadecimal digit of either case.
\<close>

definition isValidUuid :: "string \<Rightarrow> bool" where
  "isValidUuid ident =
     list_all2 (\<lambda>p c. if p = CHR ''-'' then c = CHR ''-'' else isHex c)
       ''xxxxxxxx-xxxx-xxxx-xxxx-xxxxxxxxxxxx'' ident"

definition lowerChar :: "char \<Rightarrow> char" where
  "lowerChar c =
     (let n = (of_char c :: nat)
      in if (65 \<le> n \<and> n \<le> 90) \<or> (192 \<le> n \<and> n \<le> 214) \<or> (216 \<le> n \<and> n \<le> 222)
         then char_of (n + 32) else c)"

definition toLowerCase :: "string \<Rightarrow> string" where
  "toLowerCase s = map lowerChar s"

text \<open>The keys of the table \<open>FORMAT_CATEGORIES\<close>, with their categories.\<close>

definition FORMAT_CATEGORIES :: "(string \<times> string) list" where
  "FORMAT_CATEGORIES =
     [(''mp3'', ''audio''), (''wav'', ''audio''), (''flac'', ''audio''), (''aac'', ''audio''),
      (''ogg'', ''audio''), (''m4a'', ''audio''), (''wma'', ''audio''), (''aiff'', ''audio''),
      (''midi'', ''audio''), (''mid'', ''audio''), (''opus'', ''audio''), (''ac3'', ''audio''),
      (''amr'', ''audio''), (''ape'', ''audio''),
      (''mp4'', ''video''), (''avi'', ''video''), (''mkv'', ''video''), (''mov'', ''video''),
      (''webm'', ''video''), (''wmv'', ''video''), (''flv'', ''video''), (''m4v'', ''video''),
      (''3gp'', ''video''), (''ts'', ''video''), (''vob'', ''video''), (''mts'', ''video''),
      (''mpeg'', ''video''), (''m2ts'', ''video''), (''divx'', ''video''),
      (''jpg'', ''image''), (''jpeg'', ''image''), (''png'', ''image''), (''gif'', ''image''),
      (''webp'', ''image''), (''bmp'', ''image''), (''tiff'', ''image''), (''tif'', ''image''),
      (''svg'', ''image''), (''ico'', ''image''), (''heic'', ''image''),
      (''pdf'', ''document''), (''docx'', ''document''), (''doc'', ''document''),
      (''xlsx'', ''document''), (''xls'', ''document''), (''pptx'', ''document''),
      (''ppt'', ''document''), (''txt'', ''document''), (''md'', ''document''),
      (''html'', ''document''), (''htm'', ''document''), (''rtf'', ''document''),
      (''odt'', ''document''), (''odp'', ''document''), (''ods'', ''document''),
      (''docm'', ''document''), (''xlsm'', ''document''),
      (''epub'', ''ebook''), (''mobi'', ''ebook''), (''azw3'', ''ebook''),
      (''json'', ''data''), (''csv'', ''data''), (''xml'', ''data''), (''yaml'', ''data''),
      (''yml'', ''data''), (''tsv'', ''data''),
      (''obj'', ''3d''), (''stl'', ''3d''), (''ply'', ''3d''), (''gltf'', ''3d''), (''glb'', ''3d''),
      (''dae'', ''3d''), (''off'', ''3d''), (''fbx'', ''3d''), (''3ds'', ''3d''), (''blend'', ''3d''),
      (''usdz'', ''3d''), (''step'', ''3d''), (''stp'', ''3d''), (''iges'', ''3d''), (''igs'', ''3d''),
      (''ifc'', ''3d''),
      (''ttf'', ''font''), (''otf'', ''font''), (''woff'', ''font''), (''woff2'', ''font''),
      (''eot'', ''font''),
      (''zip'', ''archive''), (''tar'', ''archive''), (''gz'', ''archive''), (''bz2'', ''archive''),
      (''7z'', ''archive''),
      (''dxf'', ''cad'')]"

text \<open>
  \<open>isFormatSupported\<close> is \<open>format.toLowerCase() in FORMAT_CATEGORIES\<close>. The operator
  \<open>in\<close> also finds the properties that the object literal inherits from
  \<open>Object.prototype\<close>; they are listed here.
\<close>

definition objectPrototypeKeys :: "string list" where
  "objectPrototypeKeys =
     [''constructor'', ''__defineGetter__'', ''__defineSetter__'', ''hasOwnProperty'',
      ''__lookupGetter__'', ''__lookupSetter__'', ''isPrototypeOf'', ''propertyIsEnumerable'',
      ''toString'', ''valueOf'', ''__proto__'', ''toLocaleString'']"

definition isFormatSupported :: "string \<Rightarrow> bool" where
  "isFormatSupported format =
     (toLowerCase format \<in> set (map fst FORMAT_CATEGORIES)
      \<or> toLowerCase format \<in> set objectPrototypeKeys)"

text \<open>\<open>s.replace(/^\./, "")\<close>: one leading dot is removed.\<close>

fun stripLeadingDot :: "string \<Rightarrow> string" where
  "stripLeadingDot [] = []"
| "stripLeadingDot (c # cs) = (if c = CHR ''.'' then cs else c # cs)"

subsection \<open>Paths and filenames\<close>

text \<open>
  \<open>path.basename\<close> and \<open>path.extname\<close> of Node.js, in their POSIX form: the
  separator is \<open>/\<close>. \<open>basename\<close> drops the separators at the end and keeps what follows
  the last separator left. \<open>extname\<close> is the part of the base name from its last dot
  on, and is empty when there is no dot, when the last dot is the first character, and
  for \<open>..\<close>. \<open>basename2 p ext\<close> is \<open>path.basename(p, ext)\<close> for a suffix \<open>ext\<close>
  without separator, which also drops \<open>ext\<close> from a base name that ends with it and
  is longer than it.
\<close>

definition afterLast :: "char \<Rightarrow> string \<Rightarrow> string" where
  "afterLast sep s = rev (takeWhile (\<lambda>c. c \<noteq> sep) (rev s))"

definition basename :: "string \<Rightarrow> string" where
  "basename p = afterLast (CHR ''/'') (stripTrailingSlashes p)"

definition extname :: "string \<Rightarrow> string" where
  "extname p =
     (let base = basename p; tail = afterLast (CHR ''.'') base
      in if length tail + 1 = length base \<or> base = ''..'' \<or> CHR ''.'' \<notin> set base
         then [] else CHR ''.'' # tail)"

definition endsWith :: "string \<Rightarrow> string \<Rightarrow> bool" where
  "endsWith s x = (length x \<le> length s \<and> drop (length s - length x) s = x)"

definition basename2 :: "string \<Rightarrow> string \<Rightarrow> string" where
  "basename2 p ext =
     (if ext = [] \<or> length p < length ext then basename p
      else if ext = p then []
      else (let base = basename p
            in if endsWith base ext \<and> base \<noteq> ext
               then take (length base - length ext) base else base))"

text \<open>The characters of \<^verbatim>\<open>/[\x00-\x1f\x80-\x9f]/\<close>.\<close>

definition isControl :: "char \<Rightarrow> bool" where
  "isControl c = (let n = (of_char c :: nat) in n \<le> 31 \<or> (128 \<le> n \<and> n \<le> 159))"

text \<open>\<open>name.replace(/[\x00-\x1f\x80-\x9f]/g, "")\<close>.\<close>

definition withoutControls :: "string \<Rightarrow> string" where
  "withoutControls s = filter (\<lambda>c. \<not> isControl c) s"

text \<open>
  \<open>sanitizeFilename\<close>; \<open>base.substring(0, 255 - ext.length)\<close> takes no character when
  the difference is negative, as the truncating subtraction of \<open>nat\<close> does.
\<close>

definition sanitizeFilename :: "string \<Rightarrow> string" where
  "sanitizeFilename filename =
     (let name = basename filename;
          name = withoutControls name;
          name = (if length name > 255
                  then (let ext = extname name; base = basename2 name ext
                        in take (255 - length ext) base @ ext)
                  else name)
      in if name = [] \<or> name = ''.'' then ''file'' else name)"

definition validateFilePath :: "Platform \<Rightarrow> string \<Rightarrow> error + string" where
  "validateFilePath pf filePath =
     (let absolutePath = path_resolve pf filePath
      in if char_of (0::nat) \<in> set absolutePath then Inl PathNullBytes
         else if \<not> existsSync pf absolutePath then Inl (FileNotFound filePath)
         else if \<not> isFile pf absolutePath then Inl (NotAFile filePath)
         else (let realPath = realpathSync pf absolutePath
               in if includesStr realPath ''..'' \<or> \<not> isAbsolute pf realPath
                  then Inl PathTraversal
                  else Inr realPath))"

subsection \<open>The operations of the client\<close>

record ConversionResponse =
  job_id :: string
  job_status :: string
  source_format :: string
  target_format :: string
  original_filename :: string
  created_at :: string
  started_at :: "string option"
  completed_at :: "string option"
  error_message :: "string option"
  download_url :: "string option"
  download_expires_at :: "string option"

text \<open>An optional string that is present and not empty, that is, truthy.\<close>

definition truthy :: "string option \<Rightarrow> string option" where
  "truthy x = (case x of None \<Rightarrow> None | Some s \<Rightarrow> if s = [] then None else Some s)"

text \<open>
  \<open>getSupportedFormats\<close>; \<open>now1\<close> is the clock when the age of the cache entry is
  computed, \<open>now2\<close> the clock when a fresh response is stored. The client is returned
  with its cache as the call leaves it.
\<close>

definition getSupportedFormats ::
  "Client \<Rightarrow> bool \<Rightarrow> int \<Rightarrow> SupportedFormatsResponse Reply list \<Rightarrow> string \<Rightarrow> int
     \<Rightarrow> (error + SupportedFormatsResponse) \<times> Client \<times> event list"
where
  "getSupportedFormats c skipCache now1 world correlationId now2 =
     (let fresh =
            (case request c ''/convert/formats'' emptyInit world correlationId of
               (Inl e, tr) \<Rightarrow> (Inl e, c, tr)
             | (Inr d, tr) \<Rightarrow>
                 (Inr d, c\<lparr>formatCache := Some \<lparr>data = d, timestamp = now2\<rparr>\<rparr>, tr))
      in if skipCache then fresh
         else (case formatCache c of
                 None \<Rightarrow> fresh
               | Some entry \<Rightarrow>
                   if now1 - timestamp entry < FORMAT_CACHE_TTL then (Inr (data entry), c, [])
                   else fresh))"

definition clearFormatCache :: "Client \<Rightarrow> Client" where
  "clearFormatCache c = c\<lparr>formatCache := None\<rparr>"

definition getConversionStatus ::
  "Client \<Rightarrow> string \<Rightarrow> ConversionResponse Reply list \<Rightarrow> string
     \<Rightarrow> (error + ConversionResponse) \<times> event list"
where
  "getConversionStatus c conversionId world correlationId =
     (if \<not> isValidUuid conversionId then (Inl InvalidConversionId, [])
      else request c (''/convert/'' @ conversionId) emptyInit world correlationId)"

text \<open>The payload of \<open>convertFileBuffer\<close>: a buffer, or a base64 string.\<close>

datatype payload = Bytes buffer | Base64 string

text \<open>\<open>data.replace(/^data:[^;]+;base64,/, "")\<close>.\<close>

definition stripDataUrlPrefix :: "string \<Rightarrow> string" where
  "stripDataUrlPrefix s =
     (if startsWith s ''data:'' then
        (let rest = drop 5 s;
             mime = takeWhile (\<lambda>c. c \<noteq> CHR '';'') rest;
             after = drop (length mime) rest
         in if mime \<noteq> [] \<and> startsWith after '';base64,'' then drop 8 after else s)
      else s)"

definition hasKeys :: "ConversionOptions \<Rightarrow> bool" where
  "hasKeys opts =
     (bitrate opts \<noteq> None \<or> crf opts \<noteq> None \<or> quality opts \<noteq> None \<or> otherKeys opts \<noteq> [])"

definition maxSize :: nat where
  "maxSize = 10 * 1024 * 1024 * 1024"

definition convertFileBuffer ::
  "Client \<Rightarrow> Platform \<Rightarrow> payload \<Rightarrow> string \<Rightarrow> string \<Rightarrow> ConversionOptions option
     \<Rightarrow> ConversionResponse Reply list \<Rightarrow> string \<Rightarrow> (error + ConversionResponse) \<times> event list"
where
  "convertFileBuffer c pf payload fileName targetFormat options world correlationId =
     (let buffer = (case payload of
                      Base64 s \<Rightarrow> fromBase64 pf (stripDataUrlPrefix s)
                    | Bytes b \<Rightarrow> b)
      in if length buffer > maxSize then (Inl FileTooLarge, [])
         else
           (let normalizedFormat = stripLeadingDot (toLowerCase targetFormat)
            in if \<not> isFormatSupported normalizedFormat
               then (Inl (UnsupportedTargetFormat targetFormat), [])
               else
                 (let sanitizedName = sanitizeFilename fileName;
                      formData =
                        \<lparr>form_file = buffer, form_filename = sanitizedName,
                         form_output_format = normalizedFormat,
                         form_options =
                           (case options of
                              None \<Rightarrow> None
                            | Some opts \<Rightarrow> if hasKeys opts then Some opts else None)\<rparr>
                  in request c ''/convert''
                       \<lparr>init_method = Some ''POST'', init_headers = [], init_body = Some formData\<rparr>
                       world correlationId)))"

definition convertFile ::
  "Client \<Rightarrow> Platform \<Rightarrow> string \<Rightarrow> string \<Rightarrow> ConversionOptions option
     \<Rightarrow> ConversionResponse Reply list \<Rightarrow> string \<Rightarrow> (error + ConversionResponse) \<times> event list"
where
  "convertFile c pf filePath targetFormat options world correlationId =
     (case validateFilePath pf filePath of
        Inl e \<Rightarrow> (Inl e, [])
      | Inr realPath \<Rightarrow>
          (let normalizedFormat = stripLeadingDot (toLowerCase targetFormat)
           in if \<not> isFormatSupported normalizedFormat
              then (Inl (UnsupportedTargetFormat targetFormat), [])
              else convertFileBuffer c pf (Bytes (readFileSync pf realPath)) (basename realPath)
                     normalizedFormat options world correlationId))"

text \<open>
  The file name in a \<open>Content-Disposition\<close> value: the first match of
  \<^verbatim>\<open>/filename="?([^";\n]+)"?/\<close>, and \<open>original_filename.replace(/\.[^.]+$/, "")\<close>.
\<close>

definition nameChar :: "char \<Rightarrow> bool" where
  "nameChar c = (c \<noteq> CHR 0x22 \<and> c \<noteq> CHR '';'' \<and> c \<noteq> CHR 0x0A)"

fun findFilename :: "string \<Rightarrow> string option" where
  "findFilename [] = None"
| "findFilename (c # cs) =
     (if startsWith (c # cs) ''filename='' then
        (let rest = drop 9 (c # cs);
             rest = (case rest of [] \<Rightarrow> [] | q # qs \<Rightarrow> if q = CHR 0x22 then qs else q # qs);
             captured = takeWhile nameChar rest
         in if captured \<noteq> [] then Some captured else findFilename cs)
      else findFilename cs)"

definition stripExtension :: "string \<Rightarrow> string" where
  "stripExtension s =
     (let tail = afterLast (CHR ''.'') s
      in if CHR ''.'' \<in> set s \<and> tail \<noteq> [] then take (length s - length tail - 1) s else s)"

record Download =
  dl_data :: buffer
  dl_filename :: string
  dl_contentType :: string

text \<open>
  \<open>downloadFile\<close>; \<open>now\<close> is the clock when the expiry is checked and \<open>reply\<close> is
  what the network does with the fetch of the download address.
\<close>

definition downloadFile ::
  "Client \<Rightarrow> Platform \<Rightarrow> string \<Rightarrow> ConversionResponse Reply list \<Rightarrow> string \<Rightarrow> int
     \<Rightarrow> buffer Reply \<Rightarrow> (error + Download) \<times> event list"
where
  "downloadFile c pf conversionId world correlationId now reply =
     (if \<not> isValidUuid conversionId then (Inl InvalidConversionId, [])
      else
        (case getConversionStatus c conversionId world correlationId of
           (Inl e, tr) \<Rightarrow> (Inl e, tr)
         | (Inr st, tr) \<Rightarrow>
             if job_status st \<noteq> ''completed''
             then (Inl (ConversionNotComplete (job_status st) (truthy (error_message st))), tr)
             else
               (case truthy (download_url st) of
                  None \<Rightarrow> (Inl DownloadUrlNotAvailable, tr)
                | Some url \<Rightarrow>
                    if (case truthy (download_expires_at st) of
                          None \<Rightarrow> False
                        | Some e \<Rightarrow> (case dateParse pf e of None \<Rightarrow> False | Some t \<Rightarrow> t < now))
                    then (Inl DownloadExpired, tr)
                    else
                      (let init = \<lparr>init_method = None,
                                   init_headers = [(''User-Agent'', userAgent c)],
                                   init_body = None\<rparr>;
                           tr' = tr @ [Fetch url init]
                       in case fetchWithTimeout (timeout c) reply of
                            Inl e \<Rightarrow> (Inl e, tr')
                          | Inr response \<Rightarrow>
                              if \<not> ok response
                              then (Inl (DownloadFailed (status response) (statusText response)), tr')
                              else
                                (case body response of
                                   None \<Rightarrow> (Inl BodyUnreadable, tr')
                                 | Some bytes \<Rightarrow>
                                     (Inr \<lparr>dl_data = bytes,
                                           dl_filename =
                                             (case truthy (headers_get response ''Content-Disposition'') of
                                                Some cd \<Rightarrow>
                                                  (case findFilename cd of
                                                     Some f \<Rightarrow> f
                                                   | None \<Rightarrow> ''converted.'' @ target_format st)
                                              | None \<Rightarrow>
                                                  if original_filename st \<noteq> []
                                                  then stripExtension (original_filename st) @ ''.''
                                                         @ target_format st
                                                  else ''converted.'' @ target_format st),
                                           dl_contentType =
                                             orElse (headers_get response ''Content-Type'')
                                               ''application/octet-stream''\<rparr>, tr'))))))"

subsection \<open>Waiting for a conversion\<close>

record WaitOptions =
  pollInterval :: "int option"
  wait_timeout :: "int option"

text \<open>
  One turn of the polling loop meets a \<open>tick\<close> of the world: the answers of the network
  to the status request, the correlation identifier drawn for it, and the clock read
  after a status that is not terminal. The loop of the source has no bound; here it
  runs over the list of the ticks it is given and yields \<open>None\<close> when it is still
  polling at the end of the list.
\<close>

record Tick =
  tick_world :: "ConversionResponse Reply list"
  tick_cid :: string
  tick_now :: int

fun waitLoop ::
  "Client \<Rightarrow> string \<Rightarrow> int \<Rightarrow> int \<Rightarrow> int \<Rightarrow> Tick list
     \<Rightarrow> (error + ConversionResponse) option \<times> event list"
where
  "waitLoop c conversionId interval tmo startTime [] = (None, [])"
| "waitLoop c conversionId interval tmo startTime (t # ts) =
     (case getConversionStatus c conversionId (tick_world t) (tick_cid t) of
        (Inl e, tr) \<Rightarrow> (Some (Inl e), tr)
      | (Inr st, tr) \<Rightarrow>
          if job_status st = ''completed'' \<or> job_status st = ''failed''
          then (Some (Inr st), tr)
          else if tick_now t - startTime > tmo
          then (Some (Inl (ConversionTimedOut tmo (job_status st))), tr)
          else (case waitLoop c conversionId interval tmo startTime ts of
                  (res, tr') \<Rightarrow> (res, tr @ Sleep interval # tr')))"

definition waitForConversion ::
  "Client \<Rightarrow> string \<Rightarrow> WaitOptions \<Rightarrow> int \<Rightarrow> Tick list
     \<Rightarrow> (error + ConversionResponse) option \<times> event list"
where
  "waitForConversion c conversionId options startTime ticks =
     (let interval = orDefault (pollInterval options) 2000;
          tmo = orDefault (wait_timeout options) 300000
      in if \<not> isValidUuid conversionId then (Some (Inl InvalidConversionId), [])
         else waitLoop c conversionId interval tmo startTime ticks)"

subsection \<open>Cancelling and retrying\<close>

datatype CancelMessage = CannotCancelInProgress | DeletedSuccessfully | Failure error

record CancelResult =
  success :: bool
  message :: CancelMessage

definition cancelConversion ::
  "Client \<Rightarrow> string \<Rightarrow> ConversionResponse Reply list \<Rightarrow> string \<Rightarrow> unit Reply list \<Rightarrow> string
     \<Rightarrow> (error + CancelResult) \<times> event list"
where
  "cancelConversion c conversionId world correlationId world' correlationId' =
     (if \<not> isValidUuid conversionId then (Inl InvalidConversionId, [])
      else
        (case getConversionStatus c conversionId world correlationId of
           (Inl e, tr) \<Rightarrow> (Inl e, tr)
         | (Inr st, tr) \<Rightarrow>
             if job_status st = ''processing''
             then (Inr \<lparr>success = False, message = CannotCancelInProgress\<rparr>, tr)
             else
               (case request c (''/convert/'' @ conversionId)
                       \<lparr>init_method = Some ''DELETE'', init_headers = [], init_body = None\<rparr>
                       world' correlationId' of
                  (Inl e, tr') \<Rightarrow> (Inr \<lparr>success = False, message = Failure e\<rparr>, tr @ tr')
                | (Inr u, tr') \<Rightarrow>
                    (Inr \<lparr>success = True, message = DeletedSuccessfully\<rparr>, tr @ tr'))))"

definition retryConversion ::
  "Client \<Rightarrow> string \<Rightarrow> ConversionResponse Reply list \<Rightarrow> string
     \<Rightarrow> (error + ConversionResponse) \<times> event list"
where
  "retryConversion c conversionId world correlationId =
     (if \<not> isValidUuid conversionId then (Inl InvalidConversionId, [])
      else
        (case getConversionStatus c conversionId world correlationId of
           (Inl e, tr) \<Rightarrow> (Inl e, tr)
         | (Inr original, tr) \<Rightarrow>
             if job_status original \<noteq> ''failed''
             then (Inl (CanOnlyRetryFailed (job_status original)), tr)
             else (Inl (RetryGuidance conversionId (original_filename original)
                          (target_format original)
                          (orElse (error_message original) ''Unknown'')), tr)))"

subsection \<open>Estimating the size of the output\<close>

datatype Confidence = Low | Medium | High

record Estimate =
  estimatedSize :: int
  confidence :: Confidence
  est_notes :: string

text \<open>
  \<open>estimateOutputSize\<close>. The four groups of rules run one after the other on
  \<open>(ratio, confidence, notes)\<close>, each overwriting what an earlier one set.
  \<open>Math.round(x)\<close> is \<open>\<lfloor>x + 1/2\<rfloor>\<close>.
\<close>

definition estimateOutputSize ::
  "Platform \<Rightarrow> rat \<Rightarrow> string \<Rightarrow> string \<Rightarrow> ConversionOptions option \<Rightarrow> Estimate"
where
  "estimateOutputSize pf inputSize sourceFormat targetFormat options =
     (let src = toLowerCase sourceFormat;
          tgt = toLowerCase targetFormat;
          fl = roundToDouble pf;
          e0 = (1, Medium, []);
          e1 = (if tgt \<in> set [''mp3'', ''aac'', ''ogg'', ''opus''] then
                  (if src \<in> set [''wav'', ''flac'', ''aiff''] then
                     (let rate = orElse (case options of None \<Rightarrow> None | Some opts \<Rightarrow> bitrate opts)
                                   ''192k'';
                          kbps = orDefault (parseInt (replaceFirst rate ''k'' [])) 192
                      in (fl (of_int kbps / 1400), High, ''Based on '' @ rate @ '' bitrate''))
                   else e0)
                else if tgt \<in> set [''wav'', ''flac''] then
                  (if src \<in> set [''mp3'', ''aac'', ''ogg'']
                   then ((if src = ''mp3'' then 8 else 6), Medium,
                         ''Expanding lossy to lossless format'')
                   else e0)
                else e0);
          e2 = (if tgt \<in> set [''mp4'', ''webm'', ''mkv''] then
                  (case (case options of None \<Rightarrow> None | Some opts \<Rightarrow> crf opts) of
                     None \<Rightarrow> e1
                   | Some v \<Rightarrow>
                       ((if v < 20 then 3 / 2 else if v > 28 then 1 / 2 else 1), Medium,
                        ''CRF '' @ numberToString pf v @ '': ''
                          @ (if v < 20 then ''high quality, larger file''
                             else if v > 28 then ''lower quality, smaller file''
                             else ''balanced'')))
                else e1);
          e3 = (if tgt \<in> set [''jpg'', ''jpeg'', ''webp''] then
                  (let percent =
                         (case (case options of None \<Rightarrow> None | Some opts \<Rightarrow> quality opts) of
                            None \<Rightarrow> 85
                          | Some q \<Rightarrow> if q = 0 then 85 else q)
                   in if src \<in> set [''png'', ''bmp'', ''tiff'']
                      then (fl (fl (1 / 10) + fl (fl (percent / 100) * fl (3 / 10))), High,
                            ''Quality '' @ numberToString pf percent @ ''%'')
                      else e2)
                else if tgt = ''png'' then
                  (if src \<in> set [''jpg'', ''jpeg'', ''webp'']
                   then (3, Medium, ''Lossless format, larger file expected'')
                   else e2)
                else e2);
          e4 = (if tgt = ''pdf'' \<and> src \<in> set [''docx'', ''doc'', ''pptx'']
                then (fl (8 / 10), Low, ''Depends heavily on document content'')
                else e3)
      in case e4 of
           (ratio, conf, text) \<Rightarrow>
             \<lparr>estimatedSize = \<lfloor>fl (inputSize * ratio) + 1 / 2\<rfloor>, confidence = conf, est_notes = text\<rparr>)"

subsection \<open>A platform for the examples\<close>

text \<open>
  It computes exactly, accepts the addresses that start with \<open>http://\<close> or
  \<open>https://\<close>, and has one file.
\<close>

definition examplePlatform :: Platform where
  "examplePlatform =
     \<lparr>urlParses = (\<lambda>s. startsWith s ''http://'' \<or> startsWith s ''https://''),
      fromBase64 = (\<lambda>s. map of_char s),
      dateParse = (\<lambda>s. None),
      path_resolve = (\<lambda>p. p),
      existsSync = (\<lambda>p. p = ''/tmp/song.wav''),
      isFile = (\<lambda>p. p = ''/tmp/song.wav''),
      realpathSync = (\<lambda>p. p),
      isAbsolute = (\<lambda>p. startsWith p ''/''),
      readFileSync = (\<lambda>p. [82, 73, 70, 70]),
      roundToDouble = (\<lambda>x. x),
      numberToString = (\<lambda>x. ''?'')\<rparr>"

subsection \<open>The polling state machine of the specification\<close>

fun isTimedOut :: "error \<Rightarrow> bool" where
  "isTimedOut (ConversionTimedOut t s) = True"
| "isTimedOut e = False"

text \<open>
  The polling state machine in the words of the specification, for a poll interval
  \<open>P\<close> and a timeout \<open>T\<close>: on each tick the status is fetched; a terminal status is
  returned; otherwise, if the time elapsed since the start exceeds \<open>T\<close>, the wait fails
  with a timeout error that reports the status; otherwise the machine sleeps for \<open>P\<close>
  and repeats. A status request that fails ends the wait with its error.
\<close>

inductive polls ::
  "Client \<Rightarrow> string \<Rightarrow> int \<Rightarrow> int \<Rightarrow> int \<Rightarrow> Tick list
     \<Rightarrow> (error + ConversionResponse) option \<Rightarrow> event list \<Rightarrow> bool"
  for c :: Client and ident :: string and P :: int and T :: int and start :: int
where
  polls_end: "polls c ident P T start [] None []"
| polls_error:
    "getConversionStatus c ident (tick_world t) (tick_cid t) = (Inl e, tr)
     \<Longrightarrow> polls c ident P T start (t # ts) (Some (Inl e)) tr"
| polls_terminal:
    "getConversionStatus c ident (tick_world t) (tick_cid t) = (Inr st, tr)
     \<Longrightarrow> job_status st = ''completed'' \<or> job_status st = ''failed''
     \<Longrightarrow> polls c ident P T start (t # ts) (Some (Inr st)) tr"
| polls_timeout:
    "getConversionStatus c ident (tick_world t) (tick_cid t) = (Inr st, tr)
     \<Longrightarrow> job_status st \<noteq> ''completed'' \<Longrightarrow> job_status st \<noteq> ''failed''
     \<Longrightarrow> T < tick_now t - start
     \<Longrightarrow> polls c ident P T start (t # ts) (Some (Inl (ConversionTimedOut T (job_status st)))) tr"
| polls_sleep:
    "getConversionStatus c ident (tick_world t) (tick_cid t) = (Inr st, tr)
     \<Longrightarrow> job_status st \<noteq> ''completed'' \<Longrightarrow> job_status st \<noteq> ''failed''
     \<Longrightarrow> \<not> T < tick_now t - start
     \<Longrightarrow> polls c ident P T start ts r tr'
     \<Longrightarrow> polls c ident P T start (t # ts) r (tr @ Sleep P # tr')"

subsection \<open>More values for the examples\<close>

definition exampleUuid :: string where
  "exampleUuid = ''123e4567-e89b-12d3-a456-426614174000''"

definition exampleJob :: "string \<Rightarrow> ConversionResponse" where
  "exampleJob st =
     \<lparr>job_id = exampleUuid, job_status = st, source_format = ''wav'', target_format = ''mp3'',
      original_filename = ''song.wav'', created_at = ''2025-12-02T10:00:00Z'',
      started_at = None, completed_at = None, error_message = None, download_url = None,
      download_expires_at = None\<rparr>"

definition statusUrl :: string where
  "statusUrl = ''https://converteverything.io/api/convert/123e4567-e89b-12d3-a456-426614174000''"

definition sentInit :: "string option \<Rightarrow> string \<Rightarrow> RequestInit" where
  "sentInit m cid =
     \<lparr>init_method = m,
      init_headers = [(''Authorization'', ''Bearer ce_test''),
                      (''User-Agent'', ''converteverything-mcp/1.2.0 (Node.js)''),
                      (''X-Correlation-ID'', cid)],
      init_body = None\<rparr>"

definition exampleFormats :: SupportedFormatsResponse where
  "exampleFormats = \<lparr>formats = [(''audio'', [''mp3'', ''wav''])], total_formats = 2\<rparr>"

definition formatsUrl :: string where
  "formatsUrl = ''https://converteverything.io/api/convert/formats''"

definition cachedClient :: "int \<Rightarrow> Client" where
  "cachedClient ts = exampleClient\<lparr>formatCache := Some \<lparr>data = exampleFormats, timestamp = ts\<rparr>\<rparr>"

section \<open>Verification\<close>

subsection \<open>Retries on HTTP 503\<close>

lemma iteration_503:
  assumes "status r = 503"
  shows "iteration maxR attempt (Inr r) =
     (if attempt < maxR then Continue (Some (DEFAULT_RETRY_DELAY * 2 ^ attempt)) None else Return r)"
  using assms by (simp add: iteration_def tryBlock_def RETRYABLE_STATUS_CODES_def getRetryDelay_def)

lemma loop_503:
  assumes "\<forall>k. attempt \<le> k \<and> k \<le> maxR \<longrightarrow>
             (\<exists>r. fetchWithTimeout tmo (reply_at world k) = Inr r \<and> status r = 503)"
    and "attempt \<le> maxR"
  shows "fetchWithRetry_loop maxR tmo url init world attempt le =
           (fetchWithTimeout tmo (reply_at world maxR),
            concat (map (\<lambda>k. [Fetch url init, Sleep (DEFAULT_RETRY_DELAY * 2 ^ k)]) [attempt..<maxR])
              @ [Fetch url init])"
  using assms
proof (induction "maxR - attempt" arbitrary: attempt le)
  case 0
  then have eq: "attempt = maxR" by simp
  from 0 obtain r where r: "fetchWithTimeout tmo (reply_at world maxR) = Inr r" "status r = 503"
    using eq by auto
  show ?case
    unfolding eq
    by (subst fetchWithRetry_loop.simps) (simp add: iteration_503[OF r(2)] r)
next
  case (Suc n)
  then have lt: "attempt < maxR" by simp
  from Suc.prems obtain r where r: "fetchWithTimeout tmo (reply_at world attempt) = Inr r" "status r = 503"
    by auto
  have IH: "fetchWithRetry_loop maxR tmo url init world (Suc attempt) le =
           (fetchWithTimeout tmo (reply_at world maxR),
            concat (map (\<lambda>k. [Fetch url init, Sleep (DEFAULT_RETRY_DELAY * 2 ^ k)]) [Suc attempt..<maxR])
              @ [Fetch url init])"
    using Suc.hyps(1)[of "Suc attempt"] Suc.hyps(2) Suc.prems lt by simp
  show ?case
    by (subst fetchWithRetry_loop.simps) (simp add: r(1) iteration_503[OF r(2)] lt less_imp_le[OF lt] IH upt_conv_Cons)
qed

lemma fetches_backoff:
  "fetches (concat (map (\<lambda>k. [Fetch url init, Sleep (f k)]) ks) @ [Fetch url init]) = length ks + 1"
  by (induction ks) (simp_all add: fetches_def)

lemma sleeps_backoff:
  "sleeps (concat (map (\<lambda>k. [Fetch url init, Sleep (f k)]) ks) @ [Fetch url init]) = map f ks"
  by (induction ks) simp_all

lemma not_ok_503: "status r = 503 \<Longrightarrow> \<not> ok r"
  by (simp add: ok_def)

lemma constructed_maxRetries:
  "fst (ConvertEverythingClient pf config) = Inr c \<Longrightarrow> maxRetries c = DEFAULT_MAX_RETRIES"
  by (auto simp: ConvertEverythingClient_def split: if_splits sum.splits)

text \<open>
  Claim C1. When every attempt of a logical call is answered with HTTP 503, the
  transport makes \<open>maxRetries + 1\<close> attempts (4 for a client made by the
  constructor), it sleeps \<open>DEFAULT_RETRY_DELAY * 2 ^ k\<close> milliseconds after attempt
  \<open>k\<close>, and it returns the response of the last attempt, which \<open>request\<close> turns into
  an \<open>ApiError\<close>.
\<close>

theorem fetchWithRetry_503:
  assumes "\<forall>k\<le>maxRetries c. attemptStatus (timeout c) world k = Some 503"
  shows "fst (fetchWithRetry c url options world cid)
           = fetchWithTimeout (timeout c) (reply_at world (maxRetries c))
       \<and> fetches (snd (fetchWithRetry c url options world cid)) = maxRetries c + 1
       \<and> sleeps (snd (fetchWithRetry c url options world cid))
           = map (\<lambda>k. DEFAULT_RETRY_DELAY * 2 ^ k) [0..<maxRetries c]
       \<and> (fst (ConvertEverythingClient pf config) = Inr c \<longrightarrow>
            fetches (snd (fetchWithRetry c url options world cid)) = 4)
       \<and> (\<exists>msg. fst (request c endpoint options world cid) = Inl (ApiError msg))
       \<and> fetches (snd (request c endpoint options world cid)) = maxRetries c + 1"
proof -
  have all: "\<exists>r. fetchWithTimeout (timeout c) (reply_at world k) = Inr r \<and> status r = 503"
    if "k \<le> maxRetries c" for k
  proof -
    from assms that have "attemptStatus (timeout c) world k = Some 503" by blast
    then show ?thesis by (simp add: attemptStatus_def split: sum.splits)
  qed
  from all[of "maxRetries c"]
  obtain r where r: "fetchWithTimeout (timeout c) (reply_at world (maxRetries c)) = Inr r"
      "status r = 503" by auto
  have hyp: "\<forall>k. 0 \<le> k \<and> k \<le> maxRetries c \<longrightarrow>
      (\<exists>r. fetchWithTimeout (timeout c) (reply_at world k) = Inr r \<and> status r = 503)"
    using all by simp
  have run: "fetchWithRetry_loop (maxRetries c) (timeout c) u i world 0 None =
      (Inr r, concat (map (\<lambda>k. [Fetch u i, Sleep (DEFAULT_RETRY_DELAY * 2 ^ k)]) [0..<maxRetries c])
              @ [Fetch u i])" for u i
    using loop_503[OF hyp, of u i None] r(1) by simp
  have A: "fst (fetchWithRetry c url options world cid)
           = fetchWithTimeout (timeout c) (reply_at world (maxRetries c))"
    by (simp add: fetchWithRetry_def run r(1))
  have B: "fetches (snd (fetchWithRetry c url options world cid)) = maxRetries c + 1"
    by (simp add: fetchWithRetry_def run fetches_backoff)
  have C: "sleeps (snd (fetchWithRetry c url options world cid))
           = map (\<lambda>k. DEFAULT_RETRY_DELAY * 2 ^ k) [0..<maxRetries c]"
    by (simp add: fetchWithRetry_def run sleeps_backoff)
  have D: "fst (ConvertEverythingClient pf config) = Inr c \<longrightarrow>
            fetches (snd (fetchWithRetry c url options world cid)) = 4"
    using B constructed_maxRetries[of pf config c] by (simp add: DEFAULT_MAX_RETRIES_def)
  have E: "\<exists>msg. fst (request c endpoint options world cid) = Inl (ApiError msg)"
    using not_ok_503[OF r(2)] by (simp add: request_def fetchWithRetry_def run Let_def)
  have F: "fetches (snd (request c endpoint options world cid)) = maxRetries c + 1"
    using not_ok_503[OF r(2)] by (simp add: request_def fetchWithRetry_def run fetches_backoff Let_def)
  from A B C D E F show ?thesis by blast
qed

theorem fetchWithRetry_503_witness:
  "map (attemptStatus (timeout exampleClient)
        [Responds 20 (respond 503 [] None), Responds 20 (respond 503 [] None),
         Responds 20 (respond 503 [] None), Responds 20 (respond 503 [] (None :: unit option))])
     [0, 1, 2, 3] = [Some 503, Some 503, Some 503, Some 503]
   \<and> sleeps (snd (fetchWithRetry exampleClient ''https://converteverything.io/api/user/usage'' emptyInit
        [Responds 20 (respond 503 [] None), Responds 20 (respond 503 [] None),
         Responds 20 (respond 503 [] None), Responds 20 (respond 503 [] (None :: unit option))] ''mcp-1-abc'')) = [1000, 2000, 4000]
   \<and> fetches (snd (fetchWithRetry exampleClient ''https://converteverything.io/api/user/usage'' emptyInit
        [Responds 20 (respond 503 [] None), Responds 20 (respond 503 [] None),
         Responds 20 (respond 503 [] None), Responds 20 (respond 503 [] (None :: unit option))] ''mcp-1-abc'')) = 4"
proof -
  let ?w = "[Responds 20 (respond 503 [] None), Responds 20 (respond 503 [] None),
         Responds 20 (respond 503 [] None), Responds 20 (respond 503 [] (None :: unit option))]"
  have h: "\<forall>k\<le>maxRetries exampleClient. attemptStatus (timeout exampleClient) ?w k = Some 503"
    by (auto simp: exampleClient_def attemptStatus_def reply_at_def respond_def nth_Cons split: nat.splits)
  have u: "[0..<3] = [0, 1, 2]" by (simp add: upt_conv_Cons)
  have m: "maxRetries exampleClient = 3" by (simp add: exampleClient_def)
  note t = fetchWithRetry_503[OF h, of "''https://converteverything.io/api/user/usage''" emptyInit "''mcp-1-abc''"]
  have a: "map (attemptStatus (timeout exampleClient) ?w) [0, 1, 2, 3] = [Some 503, Some 503, Some 503, Some 503]"
    using h by (simp add: m)
  have s: "sleeps (snd (fetchWithRetry exampleClient ''https://converteverything.io/api/user/usage'' emptyInit ?w ''mcp-1-abc'')) = [1000, 2000, 4000]"
    using t by (simp add: m u DEFAULT_RETRY_DELAY_def)
  have f: "fetches (snd (fetchWithRetry exampleClient ''https://converteverything.io/api/user/usage'' emptyInit ?w ''mcp-1-abc'')) = 4"
    using t by (simp add: m)
  from a s f show ?thesis by blast
qed

subsection \<open>Unfolding the retry loop\<close>

lemma loop_unfold:
  "attempt \<le> maxR \<Longrightarrow>
   fetchWithRetry_loop maxR tmo url init world attempt le =
     (case iteration maxR attempt (fetchWithTimeout tmo (reply_at world attempt)) of
        Return response \<Rightarrow> (Inr response, [Fetch url init])
      | Continue slept err \<Rightarrow>
          (fst (fetchWithRetry_loop maxR tmo url init world (Suc attempt) (newLastError le err)),
           Fetch url init # sleepEvents slept
             @ snd (fetchWithRetry_loop maxR tmo url init world (Suc attempt) (newLastError le err))))"
  by (subst fetchWithRetry_loop.simps) (simp split: flow.splits prod.splits)

lemma loop_exit:
  "maxR < attempt \<Longrightarrow>
   fetchWithRetry_loop maxR tmo url init world attempt le =
     (Inl (case le of Some e \<Rightarrow> e | None \<Rightarrow> RequestFailedAfterRetries), [])"
  by (subst fetchWithRetry_loop.simps) simp

lemma loop_network_error_step:
  assumes "fetchWithTimeout tmo (reply_at world attempt) = Inl e"
    and "errorName e \<noteq> ''AbortError''" and "attempt < maxR"
  shows "fetchWithRetry_loop maxR tmo url init world attempt le =
           (fst (fetchWithRetry_loop maxR tmo url init world (Suc attempt) (Some e)),
            Fetch url init # Sleep (DEFAULT_RETRY_DELAY * 2 ^ attempt)
              # snd (fetchWithRetry_loop maxR tmo url init world (Suc attempt) (Some e)))"
  using assms by (subst loop_unfold) (simp_all add: iteration_def tryBlock_def getRetryDelay_def)

lemma loop_abort_step:
  assumes "fetchWithTimeout tmo (reply_at world attempt) = Inl e"
    and "errorName e = ''AbortError''" and "attempt < maxR"
  shows "fetchWithRetry_loop maxR tmo url init world attempt le =
           (fst (fetchWithRetry_loop maxR tmo url init world (Suc attempt) (Some e)),
            Fetch url init # snd (fetchWithRetry_loop maxR tmo url init world (Suc attempt) (Some e)))"
  using assms by (subst loop_unfold) (simp_all add: iteration_def tryBlock_def)

lemma loop_last_attempt_fails:
  assumes "fetchWithTimeout tmo (reply_at world maxR) = Inl e"
  shows "fetchWithRetry_loop maxR tmo url init world maxR le = (Inl e, [Fetch url init])"
  using assms by (subst loop_unfold) (simp_all add: loop_exit iteration_def tryBlock_def)

subsection \<open>Decimal numerals and \<open>parseInt\<close>\<close>

lemma decValue_append: "decValue acc (xs @ ys) = decValue (decValue acc xs) ys"
  by (induction xs arbitrary: acc) simp_all

lemma of_char_digitChar: "d < 10 \<Longrightarrow> (of_char (digitChar d) :: nat) = 48 + d"
  by (simp add: digitChar_def)

lemma digitChar_props:
  assumes "d < 10"
  shows "isDigit (digitChar d)" "digitVal (digitChar d) = int d" "\<not> isWhiteSpace (digitChar d)"
    "digitChar d \<noteq> CHR ''-''" "digitChar d \<noteq> CHR ''+''"
proof -
  note oc = of_char_digitChar[OF assms]
  show "isDigit (digitChar d)" using assms by (simp add: isDigit_def oc)
  show "digitVal (digitChar d) = int d" by (simp add: digitVal_def oc)
  show "\<not> isWhiteSpace (digitChar d)" using assms by (simp add: isWhiteSpace_def oc)
  have "(of_char (digitChar d) :: nat) \<noteq> of_char CHR ''-''" using assms by (simp add: oc)
  then show "digitChar d \<noteq> CHR ''-''" by auto
  have "(of_char (digitChar d) :: nat) \<noteq> of_char CHR ''+''" using assms by (simp add: oc)
  then show "digitChar d \<noteq> CHR ''+''" by auto
qed

lemma decimal_nonempty: "decimal n \<noteq> []"
  by (subst decimal.simps) simp

lemma decimal_all_digits: "\<forall>c\<in>set (decimal n). isDigit c"
proof (induction n rule: decimal.induct)
  case (1 n)
  show ?case
  proof (cases "n < 10")
    case True
    then show ?thesis by (subst decimal.simps) (simp add: digitChar_props)
  next
    case False
    with 1 show ?thesis by (subst decimal.simps) (simp add: digitChar_props)
  qed
qed

lemma decValue_decimal: "decValue 0 (decimal n) = int n"
proof (induction n rule: decimal.induct)
  case (1 n)
  show ?case
  proof (cases "n < 10")
    case True
    then show ?thesis by (subst decimal.simps) (simp add: digitChar_props)
  next
    case False
    with 1 have "decValue 0 (decimal (n div 10)) = int (n div 10)" by simp
    with False show ?thesis
      by (subst decimal.simps) (simp add: decValue_append digitChar_props zdiv_int zmod_int)
  qed
qed

lemma hd_decimal_digit: "isDigit (hd (decimal n))"
  using decimal_all_digits[of n] decimal_nonempty[of n] by (cases "decimal n") auto

lemma isDigit_not_special:
  "isDigit c \<Longrightarrow> \<not> isWhiteSpace c \<and> c \<noteq> CHR ''-'' \<and> c \<noteq> CHR ''+''"
  by (auto simp: isDigit_def isWhiteSpace_def)

lemma toDouble_exact: "\<bar>n\<bar> < 2 ^ 53 \<Longrightarrow> toDouble n = n"
  by (simp add: toDouble_def Let_def nat_less_iff)

lemma bitLength_le: "0 < n \<Longrightarrow> 2 ^ (bitLength n - 1) \<le> n"
proof (induction n rule: bitLength.induct)
  case (1 n)
  from 1(2) have bl: "bitLength n = Suc (bitLength (n div 2))" by (subst bitLength.simps) simp
  show ?case
  proof (cases "n div 2 = 0")
    case True
    then have "bitLength (n div 2) = 0" by (simp add: bitLength.simps)
    with 1(2) show ?thesis by (simp add: bl)
  next
    case False
    with 1 have ih: "2 ^ (bitLength (n div 2) - 1) \<le> n div 2" by simp
    from False have "bitLength (n div 2) \<noteq> 0" by (subst bitLength.simps) simp
    then obtain k where k: "bitLength (n div 2) = Suc k" by (cases "bitLength (n div 2)") auto
    from ih k have "2 * 2 ^ k \<le> 2 * (n div 2)" by simp
    also have "\<dots> \<le> n" by simp
    finally show ?thesis by (simp add: bl k)
  qed
qed

lemma bitLength_gt: "n < 2 ^ bitLength n"
proof (induction n rule: bitLength.induct)
  case (1 n)
  show ?case
  proof (cases "n = 0")
    case True
    then show ?thesis by simp
  next
    case False
    with 1 have ih: "n div 2 < 2 ^ bitLength (n div 2)" by simp
    from False have bl: "bitLength n = Suc (bitLength (n div 2))" by (subst bitLength.simps) simp
    from ih show ?thesis unfolding bl by simp
  qed
qed

lemma toDouble_zero_iff: "toDouble n = 0 \<longleftrightarrow> n = 0"
proof (cases "nat \<bar>n\<bar> < 2 ^ 53")
  case True
  then show ?thesis by (simp add: toDouble_def)
next
  case False
  define a where "a = nat \<bar>n\<bar>"
  define e where "e = bitLength a - 53"
  from False have big: "2 ^ 53 \<le> a" by (simp add: a_def)
  then have apos: "0 < a" by (simp add: less_le_trans[of 0 "2^53" a])
  have "(2::nat) ^ e \<le> 2 ^ (bitLength a - 1)" unfolding e_def by (rule power_increasing) simp_all
  from this bitLength_le[OF apos] have "2 ^ e \<le> a" by (rule order_trans)
  then have q: "0 < a div 2 ^ e" by (simp add: div_greater_zero_iff)
  from big have nz: "n \<noteq> 0" by (auto simp: a_def)
  from False q nz show ?thesis
    by (auto simp: toDouble_def Let_def sgn_if a_def[symmetric] e_def[symmetric])
qed

text \<open>
  Beyond \<open>2^53\<close> the value is rounded: \<open>2^53 + 1\<close> lies between two doubles and is
  read as the even one, \<open>2^53 + 3\<close> as \<open>2^53 + 4\<close>.
\<close>

lemma toDouble_examples:
  "toDouble 9007199254740993 = 9007199254740992"
  "toDouble 9007199254740995 = 9007199254740996"
  "toDouble (- 9007199254740993) = - 9007199254740992"
  "toDouble 9007199254740992000 = 9007199254740992000"
  by (simp_all add: toDouble_def bitLength.simps Let_def)

lemma parseInt_rounds: "parseInt ''9007199254740993'' = Some 9007199254740992"
  by (simp add: parseInt_def isWhiteSpace_def isDigit_def digitVal_def toDouble_def
        bitLength.simps Let_def)

lemma parseInt_decimal:
  assumes "int n < 2 ^ 53"
  shows "parseInt (decimal n) = Some (int n)"
proof -
  have td: "toDouble (int n) = int n" using assms by (simp add: toDouble_exact)
  have ne: "decimal n \<noteq> []" by (rule decimal_nonempty)
  note sp = isDigit_not_special[OF hd_decimal_digit[of n]]
  have dw: "dropWhile isWhiteSpace (decimal n) = decimal n"
    using ne sp by (cases "decimal n") auto
  have tw: "takeWhile isDigit (decimal n) = decimal n"
    using decimal_all_digits[of n] by (simp add: takeWhile_eq_all_conv)
  show ?thesis
    using ne sp by (simp add: parseInt_def Let_def dw tw decValue_decimal td)
qed

subsection \<open>Rate limiting: HTTP 429 and \<open>Retry-After\<close>\<close>

lemma loop_429_step:
  assumes "fetchWithTimeout tmo (reply_at world attempt) = Inr r" and "status r = 429"
    and "attempt < maxR"
  shows "fetchWithRetry_loop maxR tmo url init world attempt le =
           (fst (fetchWithRetry_loop maxR tmo url init world (Suc attempt) le),
            Fetch url init
              # Sleep (getRetryDelay attempt
                         (orUndefined (parseInt (orElse (headers_get r ''Retry-After'') ''0''))))
              # snd (fetchWithRetry_loop maxR tmo url init world (Suc attempt) le))"
  using assms
  by (subst fetchWithRetry_loop.simps)
     (simp add: iteration_def tryBlock_def Let_def split: prod.splits)

lemma parseInt_zero: "parseInt ''0'' = Some 0"
  by (simp add: parseInt_def isWhiteSpace_def isDigit_def digitVal_def toDouble_def)

text \<open>
  Claim C2, as the code has it. When an attempt with a retry left receives HTTP 429, the
  next attempt follows one call of \<open>sleep\<close>. The numbers of the code are doubles, and
  the delay is stated where they are exact, for a product with 1000 of magnitude below
  \<open>2^53\<close>: a \<open>Retry-After\<close> value that is the decimal numeral of a positive number
  \<open>n\<close> of seconds makes the delay \<open>n * 1000\<close> milliseconds, and so does any value in
  which \<open>parseInt\<close> reads a number \<open>n\<close> other than 0. When the header is absent, or
  \<open>parseInt\<close> reads 0 or no number in it, the delay is
  \<open>DEFAULT_RETRY_DELAY * 2 ^ attempt\<close> milliseconds.
\<close>

theorem retry_after_delay:
  assumes "fetchWithTimeout tmo (reply_at world attempt) = Inr r" and "status r = 429"
    and "attempt < maxR"
  shows "\<exists>d. fetchWithRetry_loop maxR tmo url init world attempt le =
           (fst (fetchWithRetry_loop maxR tmo url init world (Suc attempt) le),
            Fetch url init # Sleep d
              # snd (fetchWithRetry_loop maxR tmo url init world (Suc attempt) le))
       \<and> (\<forall>n. 0 < n \<and> int n * 1000 < 2 ^ 53
              \<and> headers_get r ''Retry-After'' = Some (decimal n) \<longrightarrow> d = int n * 1000)
       \<and> (\<forall>h n. headers_get r ''Retry-After'' = Some h \<and> parseInt h = Some n \<and> n \<noteq> 0
              \<and> \<bar>n * 1000\<bar> < 2 ^ 53 \<longrightarrow> d = n * 1000)
       \<and> (headers_get r ''Retry-After'' = None
            \<or> headers_get r ''Retry-After'' = Some ''0''
            \<or> (\<exists>h. headers_get r ''Retry-After'' = Some h
                  \<and> (parseInt h = None \<or> parseInt h = Some 0))
           \<longrightarrow> d = DEFAULT_RETRY_DELAY * 2 ^ attempt)"
proof -
  let ?d = "getRetryDelay attempt
              (orUndefined (parseInt (orElse (headers_get r ''Retry-After'') ''0'')))"
  have empty: "parseInt [] = None" by (simp add: parseInt_def)
  have gen: "?d = n * 1000"
    if "headers_get r ''Retry-After'' = Some h" "parseInt h = Some n" "n \<noteq> 0"
       "\<bar>n * 1000\<bar> < 2 ^ 53" for h n
  proof -
    from that(2) empty have "h \<noteq> []" by auto
    with that(1,2,3) have "?d = toDouble (n * 1000)"
      by (simp add: orElse_def orUndefined_def getRetryDelay_def)
    with toDouble_exact[OF that(4)] show ?thesis by simp
  qed
  have pos: "?d = int n * 1000"
    if "0 < n" "int n * 1000 < 2 ^ 53" "headers_get r ''Retry-After'' = Some (decimal n)" for n
  proof -
    from that(2) have small: "int n < 2 ^ 53" by simp
    from that(1,2) have prod: "\<bar>int n * 1000\<bar> < 2 ^ 53" by simp
    from that(1) have nz: "int n \<noteq> 0" by simp
    show ?thesis by (rule gen[OF that(3) parseInt_decimal[OF small] nz prod])
  qed
  have absent: "?d = DEFAULT_RETRY_DELAY * 2 ^ attempt" if "headers_get r ''Retry-After'' = None"
    using that by (simp add: orElse_def parseInt_zero orUndefined_def getRetryDelay_def)
  have zero: "?d = DEFAULT_RETRY_DELAY * 2 ^ attempt" if "headers_get r ''Retry-After'' = Some ''0''"
    using that by (simp add: orElse_def parseInt_zero orUndefined_def getRetryDelay_def)
  have nan: "?d = DEFAULT_RETRY_DELAY * 2 ^ attempt"
    if "headers_get r ''Retry-After'' = Some h" "parseInt h = None \<or> parseInt h = Some 0" for h
    using that by (auto simp: orElse_def parseInt_zero orUndefined_def getRetryDelay_def)
  show ?thesis
  proof (intro exI[of _ ?d] conjI allI impI)
    show "fetchWithRetry_loop maxR tmo url init world attempt le =
           (fst (fetchWithRetry_loop maxR tmo url init world (Suc attempt) le),
            Fetch url init # Sleep ?d
              # snd (fetchWithRetry_loop maxR tmo url init world (Suc attempt) le))"
      by (rule loop_429_step[OF assms])
  next
    fix n assume "0 < n \<and> int n * 1000 < 2 ^ 53
              \<and> headers_get r ''Retry-After'' = Some (decimal n)"
    then show "?d = int n * 1000" using pos by blast
  next
    fix h n assume "headers_get r ''Retry-After'' = Some h \<and> parseInt h = Some n \<and> n \<noteq> 0
              \<and> \<bar>n * 1000\<bar> < 2 ^ 53"
    then show "?d = n * 1000" using gen by blast
  next
    assume "headers_get r ''Retry-After'' = None
            \<or> headers_get r ''Retry-After'' = Some ''0''
            \<or> (\<exists>h. headers_get r ''Retry-After'' = Some h
                  \<and> (parseInt h = None \<or> parseInt h = Some 0))"
    then show "?d = DEFAULT_RETRY_DELAY * 2 ^ attempt" using absent zero nan by blast
  qed
qed

theorem retry_after_delay_witness:
  "hd (sleeps (snd (fetchWithRetry_loop 3 300000 ''u'' emptyInit
        [Responds 20 (respond 429 [(''Retry-After'', ''30'')] None),
         Responds 20 (respond 200 [] (Some ()))] 0 None))) = 30 * 1000"
proof -
  let ?r = "respond 429 [(''Retry-After'', ''30'')] (None :: unit option)"
  let ?w = "[Responds 20 ?r, Responds 20 (respond 200 [] (Some ()))]"
  have a: "fetchWithTimeout 300000 (reply_at ?w 0) = Inr ?r" by (simp add: reply_at_def)
  have b: "status ?r = 429" by (simp add: respond_def)
  have c: "(0::nat) < 3" by simp
  have d30: "decimal 30 = ''30''" by code_simp
  have h: "(0::nat) < 30 \<and> int 30 * 1000 < 2 ^ 53
      \<and> headers_get ?r ''Retry-After'' = Some (decimal 30)"
    by (simp add: d30 headers_get_def respond_def)
  from retry_after_delay[OF a b c, of "''u''" emptyInit None] h
  obtain d where "fetchWithRetry_loop 3 300000 ''u'' emptyInit ?w 0 None =
           (fst (fetchWithRetry_loop 3 300000 ''u'' emptyInit ?w (Suc 0) None),
            Fetch ''u'' emptyInit # Sleep d
              # snd (fetchWithRetry_loop 3 300000 ''u'' emptyInit ?w (Suc 0) None))"
    and "d = int 30 * 1000" by blast
  then show ?thesis by simp
qed

text \<open>
  Claim C2 as stated fails for \<open>N = 0\<close>: a 429 response that carries \<open>Retry-After: 0\<close> is
  followed by a sleep of 1000 milliseconds at attempt 0, not of \<open>0 * 1000\<close>.
\<close>

theorem retry_after_zero_counterexample:
  "headers_get (respond 429 [(''Retry-After'', ''0'')] (None :: unit option)) ''Retry-After''
     = Some (decimal 0)
   \<and> sleeps (snd (fetchWithRetry exampleClient ''https://converteverything.io/api/user/usage'' emptyInit
        [Responds 20 (respond 429 [(''Retry-After'', ''0'')] None),
         Responds 20 (respond 200 [] (Some ()))] ''mcp-1-abc'')) = [1000]
   \<and> sleeps (snd (fetchWithRetry exampleClient ''https://converteverything.io/api/user/usage'' emptyInit
        [Responds 20 (respond 429 [(''Retry-After'', ''0'')] None),
         Responds 20 (respond 200 [] (Some ()))] ''mcp-1-abc'')) \<noteq> [int 0 * 1000]"
proof -
  have d0: "decimal 0 = ''0''" by code_simp
  have run: "sleeps (snd (fetchWithRetry exampleClient ''https://converteverything.io/api/user/usage'' emptyInit
        [Responds 20 (respond 429 [(''Retry-After'', ''0'')] None),
         Responds 20 (respond 200 [] (Some ()))] ''mcp-1-abc'')) = [1000]"
    by (simp add: fetchWithRetry_def exampleClient_def loop_unfold loop_exit reply_at_def
      iteration_def tryBlock_def respond_def headers_get_def orElse_def parseInt_def isWhiteSpace_def
      isDigit_def digitVal_def orUndefined_def getRetryDelay_def RETRYABLE_STATUS_CODES_def
      DEFAULT_RETRY_DELAY_def toDouble_def)
  have hdr: "headers_get (respond 429 [(''Retry-After'', ''0'')] (None :: unit option)) ''Retry-After''
     = Some (decimal 0)"
    by (simp add: d0 headers_get_def respond_def)
  have ne: "sleeps (snd (fetchWithRetry exampleClient ''https://converteverything.io/api/user/usage'' emptyInit
        [Responds 20 (respond 429 [(''Retry-After'', ''0'')] None),
         Responds 20 (respond 200 [] (Some ()))] ''mcp-1-abc'')) \<noteq> [int 0 * 1000]"
    unfolding run by simp
  from hdr run ne show ?thesis by blast
qed

text \<open>
  Beyond the exact range the delay is the product of the doubles: the value
  \<open>9007199254740993\<close> is read as \<open>9007199254740992\<close>.
\<close>

lemma retry_after_beyond_exact_range:
  "sleeps (snd (fetchWithRetry exampleClient ''https://converteverything.io/api/user/usage'' emptyInit
        [Responds 20 (respond 429 [(''Retry-After'', ''9007199254740993'')] None),
         Responds 20 (respond 200 [] (Some ()))] ''mcp-1-abc'')) = [9007199254740992000]"
  by (simp add: fetchWithRetry_def exampleClient_def loop_unfold loop_exit reply_at_def
      iteration_def tryBlock_def respond_def headers_get_def orElse_def parseInt_rounds
      orUndefined_def getRetryDelay_def toDouble_examples RETRYABLE_STATUS_CODES_def)

subsection \<open>Attempts that obtain no response\<close>

text \<open>
  Claim C3 at a failing input. The first attempt gets no answer before the per-request
  timeout and is aborted; the second attempt is answered with HTTP 200. The loop goes
  on to the second attempt at once, without a sleep, and returns its response: the
  aborted attempt has been retried.
\<close>

theorem aborted_attempt_is_retried:
  "fetchWithRetry exampleClient ''https://converteverything.io/api/user/usage'' emptyInit
        [Silent, Responds 20 (respond 200 [] (Some ()))] ''mcp-1-abc''
     = (Inr (respond 200 [] (Some ())),
        [Fetch ''https://converteverything.io/api/user/usage''
           (emptyInit\<lparr>init_headers := [(''X-Correlation-ID'', ''mcp-1-abc'')]\<rparr>),
         Fetch ''https://converteverything.io/api/user/usage''
           (emptyInit\<lparr>init_headers := [(''X-Correlation-ID'', ''mcp-1-abc'')]\<rparr>)])"
  by (simp add: fetchWithRetry_def exampleClient_def loop_unfold loop_exit reply_at_def
      iteration_def tryBlock_def respond_def abortError_def emptyInit_def
      RETRYABLE_STATUS_CODES_def)

lemma silent_network_makes_all_attempts:
  "fetchWithRetry exampleClient ''u'' emptyInit ([] :: unit Reply list) ''mcp-1-abc''
     = (Inl abortError,
        replicate 4 (Fetch ''u'' (emptyInit\<lparr>init_headers := [(''X-Correlation-ID'', ''mcp-1-abc'')]\<rparr>)))"
  by (simp add: fetchWithRetry_def exampleClient_def loop_unfold loop_exit reply_at_def
      iteration_def tryBlock_def abortError_def emptyInit_def numeral_eq_Suc)

subsection \<open>The size estimate\<close>

lemma round_bounds:
  fixes r p :: rat
  assumes r: "\<bar>r - 128 / 1400\<bar> \<le> \<bar>128 / 1400\<bar> / 2 ^ 53"
    and p: "\<bar>p - 150000000 * r\<bar> \<le> \<bar>150000000 * r\<bar> / 2 ^ 53"
  shows "\<lfloor>p + 1 / 2\<rfloor> = 13714286"
proof -
  have e: "(2::rat) ^ 53 = 9007199254740992" by simp
  have r1: "r \<le> 128 / 1400 + (128 / 1400) / 9007199254740992"
    and r2: "128 / 1400 - (128 / 1400) / 9007199254740992 \<le> r"
    using r unfolding e by linarith+
  have rpos: "0 \<le> r" using r2 by linarith
  have p1: "p \<le> 150000000 * r + (150000000 * r) / 9007199254740992"
    and p2: "150000000 * r - (150000000 * r) / 9007199254740992 \<le> p"
    using p rpos unfolding e by linarith+
  have lo: "13714285 + 1 / 2 \<le> p" using p2 r2 by linarith
  have hi: "p < 13714286 + 1 / 2" using p1 r1 by linarith
  show ?thesis using lo hi by (simp add: floor_eq_iff)
qed


lemma lower_wav: "toLowerCase ''wav'' = ''wav''" by (simp add: toLowerCase_def lowerChar_def)
lemma lower_mp3: "toLowerCase ''mp3'' = ''mp3''" by (simp add: toLowerCase_def lowerChar_def)
lemma kbps_128: "orDefault (parseInt (replaceFirst ''128k'' ''k'' [])) 192 = 128"
  by (simp add: startsWith_def parseInt_def isWhiteSpace_def isDigit_def digitVal_def orDefault_def
        toDouble_def)

lemma estimate_shape:
  "estimateOutputSize pf 150000000 ''wav'' ''mp3''
       (Some \<lparr>bitrate = Some ''128k'', crf = None, quality = None, otherKeys = []\<rparr>)
     = \<lparr>estimatedSize = \<lfloor>roundToDouble pf (150000000 * roundToDouble pf (128 / 1400)) + 1 / 2\<rfloor>,
        confidence = High, est_notes = ''Based on 128k bitrate''\<rparr>"
  by (simp add: estimateOutputSize_def lower_wav lower_mp3 orElse_def kbps_128 Let_def
        del: replaceFirst.simps)

text \<open>
  Claim C9. With input size 150000000, source format \<open>wav\<close>, target format \<open>mp3\<close> and
  the option \<open>bitrate = 128k\<close>, \<open>estimateOutputSize\<close> returns 13714286, which is
  \<open>150000000 * 128 / 1400\<close> rounded to the nearest integer (about 13.7 MB), with the
  confidence \<open>high\<close>. The division and the multiplication are floating-point
  operations: each result is the exact one rounded to a double, with a relative error
  of at most \<open>1 / 2 ^ 53\<close> for results of a magnitude between \<open>1 / 10 ^ 6\<close> and
  \<open>10 ^ 15\<close>. The estimate is the same for every such rounding.
\<close>

theorem estimateOutputSize_wav_mp3_128k:
  assumes "\<forall>x. 1 / 1000000 \<le> \<bar>x\<bar> \<and> \<bar>x\<bar> \<le> 1000000000000000
             \<longrightarrow> \<bar>roundToDouble pf x - x\<bar> \<le> \<bar>x\<bar> / 2 ^ 53"
  shows "estimateOutputSize pf 150000000 ''wav'' ''mp3''
           (Some \<lparr>bitrate = Some ''128k'', crf = None, quality = None, otherKeys = []\<rparr>)
         = \<lparr>estimatedSize = 13714286, confidence = High, est_notes = ''Based on 128k bitrate''\<rparr>
       \<and> (13714286 :: int) = \<lfloor>(150000000 * (128 / 1400) :: rat) + 1 / 2\<rfloor>"
proof -
  let ?r = "roundToDouble pf (128 / 1400)"
  let ?p = "roundToDouble pf (150000000 * ?r)"
  have e: "(2::rat) ^ 53 = 9007199254740992" by simp
  have "1 / 1000000 \<le> \<bar>128 / 1400 :: rat\<bar> \<and> \<bar>128 / 1400 :: rat\<bar> \<le> 1000000000000000" by simp
  with assms have r: "\<bar>?r - 128 / 1400\<bar> \<le> \<bar>128 / 1400\<bar> / 2 ^ 53" by blast
  have "9 / 100 \<le> ?r" and "?r \<le> 1 / 10" using r unfolding e by linarith+
  then have "1 / 1000000 \<le> \<bar>150000000 * ?r\<bar> \<and> \<bar>150000000 * ?r\<bar> \<le> 1000000000000000"
    by linarith
  with assms have p: "\<bar>?p - 150000000 * ?r\<bar> \<le> \<bar>150000000 * ?r\<bar> / 2 ^ 53" by blast
  have "\<lfloor>?p + 1 / 2\<rfloor> = 13714286" by (rule round_bounds[OF r p])
  moreover have "(13714286 :: int) = \<lfloor>(150000000 * (128 / 1400) :: rat) + 1 / 2\<rfloor>"
    by (simp add: floor_eq_iff)
  ultimately show ?thesis by (simp add: estimate_shape)
qed

theorem estimateOutputSize_wav_mp3_128k_witness:
  "estimateOutputSize examplePlatform 150000000 ''wav'' ''mp3''
           (Some \<lparr>bitrate = Some ''128k'', crf = None, quality = None, otherKeys = []\<rparr>)
         = \<lparr>estimatedSize = 13714286, confidence = High, est_notes = ''Based on 128k bitrate''\<rparr>"
proof -
  have h: "\<forall>x. 1 / 1000000 \<le> \<bar>x\<bar> \<and> \<bar>x\<bar> \<le> 1000000000000000
             \<longrightarrow> \<bar>roundToDouble examplePlatform x - x\<bar> \<le> \<bar>x\<bar> / 2 ^ 53"
    by (simp add: examplePlatform_def)
  from estimateOutputSize_wav_mp3_128k[OF h] show ?thesis by blast
qed

subsection \<open>Waiting for a conversion\<close>

lemma fetches_Cons_Fetch [simp]: "fetches (Fetch u i # tr) = Suc (fetches tr)"
  by (simp add: fetches_def)

lemma fetches_Cons_Sleep [simp]: "fetches (Sleep d # tr) = fetches tr"
  by (simp add: fetches_def)

lemma fetches_Nil [simp]: "fetches [] = 0"
  by (simp add: fetches_def)

lemma fetches_append [simp]: "fetches (xs @ ys) = fetches xs + fetches ys"
  by (simp add: fetches_def)

lemma loop_fetches_first:
  "attempt \<le> maxR \<Longrightarrow> 0 < fetches (snd (fetchWithRetry_loop maxR tmo url init world attempt le))"
  by (subst loop_unfold) (simp_all split: flow.splits)

lemma request_fetches: "0 < fetches (snd (request c endpoint init world cid))"
proof -
  have "0 < fetches (snd (fetchWithRetry c u i world cid))" for u i
    by (simp add: fetchWithRetry_def loop_fetches_first)
  then show ?thesis
    by (auto simp: request_def Let_def split: prod.splits sum.splits option.splits)
       (metis snd_conv)+
qed

lemma getConversionStatus_Inr_fetches:
  "getConversionStatus c ident world cid = (Inr st, tr) \<Longrightarrow> 0 < fetches tr"
  using request_fetches[of c "''/convert/'' @ ident" emptyInit world cid]
  by (auto simp: getConversionStatus_def split: if_splits)

lemma getConversionStatus_invalid:
  "\<not> isValidUuid ident \<Longrightarrow> getConversionStatus c ident world cid = (Inl InvalidConversionId, [])"
  by (simp add: getConversionStatus_def)

lemma fetchWithTimeout_not_timedOut:
  "fetchWithTimeout tmo reply = Inl e \<Longrightarrow> \<not> isTimedOut e"
  by (cases reply) (auto simp: abortError_def split: if_splits)

lemma iteration_not_timedOut:
  "iteration maxR attempt fetched = Continue sl (Some e)
   \<Longrightarrow> (\<And>x. fetched = Inl x \<Longrightarrow> \<not> isTimedOut x) \<Longrightarrow> \<not> isTimedOut e"
  by (auto simp: iteration_def tryBlock_def Let_def split: sum.splits if_splits)

lemma loop_not_timedOut:
  "fst (fetchWithRetry_loop maxR tmo url init world attempt le) = Inl e
   \<Longrightarrow> (\<And>x. le = Some x \<Longrightarrow> \<not> isTimedOut x) \<Longrightarrow> \<not> isTimedOut e"
proof (induction maxR tmo url init world attempt le rule: fetchWithRetry_loop.induct)
  case (1 maxR tmo url init world attempt lastError)
  show ?case
  proof (cases "attempt \<le> maxR")
    case False
    with "1.prems" show ?thesis
      by (subst (asm) fetchWithRetry_loop.simps) (auto split: option.splits)
  next
    case True
    show ?thesis
    proof (cases "iteration maxR attempt (fetchWithTimeout tmo (reply_at world attempt))")
      case (Return r)
      with True "1.prems" show ?thesis
        by (subst (asm) fetchWithRetry_loop.simps) simp
    next
      case (Continue sl err)
      have le': "\<not> isTimedOut x" if "newLastError lastError err = Some x" for x
      proof (cases err)
        case None
        with that "1.prems"(2) show ?thesis by simp
      next
        case (Some y)
        with that have "x = y" by simp
        with Some Continue show ?thesis
          using iteration_not_timedOut fetchWithTimeout_not_timedOut by blast
      qed
      from True Continue "1.prems"(1)
      have "fst (fetchWithRetry_loop maxR tmo url init world (Suc attempt)
                  (newLastError lastError err)) = Inl e"
        by (subst (asm) fetchWithRetry_loop.simps) (simp split: prod.splits)
      with "1.IH"[OF True Continue] le' show ?thesis by blast
    qed
  qed
qed

lemma request_not_timedOut:
  "fst (request c endpoint init world cid) = Inl e \<Longrightarrow> \<not> isTimedOut e"
proof -
  assume a: "fst (request c endpoint init world cid) = Inl e"
  have t: "\<not> isTimedOut x" if "fst (fetchWithRetry c u i world cid) = Inl x" for x u i
    using that loop_not_timedOut[of "maxRetries c" "timeout c" u _ world 0 None x]
    by (simp add: fetchWithRetry_def)
  show ?thesis
    using a t
    by (auto simp: request_def Let_def split: prod.splits sum.splits option.splits if_splits)
       (metis fst_conv)
qed

lemma getConversionStatus_not_timedOut:
  "getConversionStatus c ident world cid = (Inl e, tr) \<Longrightarrow> \<not> isTimedOut e"
  using request_not_timedOut[of c "''/convert/'' @ ident" emptyInit world cid e]
  by (auto simp: getConversionStatus_def split: if_splits)

lemma waitLoop_timeout:
  "waitLoop c ident interval tmo start ticks = (Some (Inl (ConversionTimedOut T s)), tr)
   \<Longrightarrow> T = tmo \<and> s \<noteq> ''completed'' \<and> s \<noteq> ''failed'' \<and> 0 < fetches tr"
proof (induction ticks arbitrary: tr)
  case Nil
  then show ?case by simp
next
  case (Cons t ts)
  obtain r tr0 where g: "getConversionStatus c ident (tick_world t) (tick_cid t) = (r, tr0)"
    by (cases "getConversionStatus c ident (tick_world t) (tick_cid t)")
  show ?case
  proof (cases r)
    case (Inl e)
    with Cons.prems g have "e = ConversionTimedOut T s" by simp
    with getConversionStatus_not_timedOut[of c ident "tick_world t" "tick_cid t" e tr0] g Inl
    show ?thesis by simp
  next
    case (Inr st)
    note f = getConversionStatus_Inr_fetches[OF g[unfolded Inr]]
    show ?thesis
    proof (cases "job_status st = ''completed'' \<or> job_status st = ''failed''")
      case True
      with Cons.prems g Inr show ?thesis by auto
    next
      case nt: False
      show ?thesis
      proof (cases "tick_now t - start > tmo")
        case True
        with Cons.prems g Inr nt f show ?thesis by auto
      next
        case False
        obtain r' tr' where w: "waitLoop c ident interval tmo start ts = (r', tr')"
          by (cases "waitLoop c ident interval tmo start ts")
        with Cons.prems g Inr nt False
        have "r' = Some (Inl (ConversionTimedOut T s))" and "tr = tr0 @ Sleep interval # tr'"
          by auto
        with Cons.IH[of tr'] w f show ?thesis by simp
      qed
    qed
  qed
qed


lemma waitLoop_polls:
  "polls c ident P T start ticks r tr \<longleftrightarrow> waitLoop c ident P T start ticks = (r, tr)"
proof
  assume "polls c ident P T start ticks r tr"
  then show "waitLoop c ident P T start ticks = (r, tr)"
    by (induction rule: polls.induct) auto
next
  assume "waitLoop c ident P T start ticks = (r, tr)"
  then show "polls c ident P T start ticks r tr"
  proof (induction ticks arbitrary: r tr)
    case Nil
    then show ?case by (auto intro: polls_end)
  next
    case (Cons t ts)
    obtain x tr0 where g: "getConversionStatus c ident (tick_world t) (tick_cid t) = (x, tr0)"
      by (cases "getConversionStatus c ident (tick_world t) (tick_cid t)")
    show ?case
    proof (cases x)
      case (Inl e)
      with Cons.prems g show ?thesis by (auto intro: polls_error)
    next
      case (Inr st)
      show ?thesis
      proof (cases "job_status st = ''completed'' \<or> job_status st = ''failed''")
        case True
        with Cons.prems g Inr show ?thesis by (auto intro: polls_terminal)
      next
        case nt: False
        show ?thesis
        proof (cases "T < tick_now t - start")
          case True
          with Cons.prems g Inr nt show ?thesis by (auto intro: polls_timeout)
        next
          case False
          obtain r' tr' where w: "waitLoop c ident P T start ts = (r', tr')"
            by (cases "waitLoop c ident P T start ts")
          with Cons.prems g Inr nt False have e: "r = r'" "tr = tr0 @ Sleep P # tr'" by auto
          from Cons.IH[OF w] have "polls c ident P T start ts r' tr'" .
          with g Inr nt False show ?thesis unfolding e by (auto intro: polls_sleep)
        qed
      qed
    qed
  qed
qed

text \<open>
  Claim C4, as the code has it. For a valid identifier \<open>waitForConversion\<close> is the
  polling state machine of the specification, run with the poll interval and the
  timeout that the options give when they are present and not zero, and with the
  defaults 2000 ms and 300000 ms when an option is absent or zero.
\<close>

theorem waitForConversion_state_machine:
  assumes "isValidUuid ident"
  shows "\<exists>P T. (\<forall>r tr. waitForConversion c ident options start ticks = (r, tr)
                     \<longleftrightarrow> polls c ident P T start ticks r tr)
           \<and> P = (case pollInterval options of None \<Rightarrow> 2000 | Some v \<Rightarrow> if v = 0 then 2000 else v)
           \<and> T = (case wait_timeout options of None \<Rightarrow> 300000 | Some v \<Rightarrow> if v = 0 then 300000 else v)"
  using assms by (simp add: waitForConversion_def waitLoop_polls orDefault_def)

lemma valid_exampleUuid: "isValidUuid exampleUuid"
  by (simp add: isValidUuid_def exampleUuid_def isHex_def)

lemma status_answered:
  "getConversionStatus exampleClient exampleUuid [Responds 20 (respond 200 [] (Some j))] cid
     = (Inr j, [Fetch statusUrl (sentInit None cid)])"
  by (simp add: getConversionStatus_def valid_exampleUuid[unfolded exampleUuid_def] request_def fetchWithRetry_def
        exampleClient_def loop_unfold reply_at_def iteration_def tryBlock_def respond_def
        RETRYABLE_STATUS_CODES_def ok_def emptyInit_def spread_def statusUrl_def sentInit_def
        exampleUuid_def)

theorem waitForConversion_state_machine_witness:
  "waitForConversion exampleClient exampleUuid \<lparr>pollInterval = Some 500, wait_timeout = None\<rparr> 0
     [\<lparr>tick_world = [Responds 20 (respond 200 [] (Some (exampleJob ''processing'')))],
       tick_cid = ''mcp-1-abc'', tick_now = 30\<rparr>,
      \<lparr>tick_world = [Responds 20 (respond 200 [] (Some (exampleJob ''completed'')))],
       tick_cid = ''mcp-2-def'', tick_now = 560\<rparr>]
   = (Some (Inr (exampleJob ''completed'')),
      [Fetch statusUrl (sentInit None ''mcp-1-abc''), Sleep 500,
       Fetch statusUrl (sentInit None ''mcp-2-def'')])
   \<and> polls exampleClient exampleUuid 500 300000 0
     [\<lparr>tick_world = [Responds 20 (respond 200 [] (Some (exampleJob ''processing'')))],
       tick_cid = ''mcp-1-abc'', tick_now = 30\<rparr>,
      \<lparr>tick_world = [Responds 20 (respond 200 [] (Some (exampleJob ''completed'')))],
       tick_cid = ''mcp-2-def'', tick_now = 560\<rparr>]
     (Some (Inr (exampleJob ''completed'')))
      [Fetch statusUrl (sentInit None ''mcp-1-abc''), Sleep 500,
       Fetch statusUrl (sentInit None ''mcp-2-def'')]"
proof -
  let ?o = "\<lparr>pollInterval = Some 500, wait_timeout = None\<rparr>"
  let ?ticks = "[\<lparr>tick_world = [Responds 20 (respond 200 [] (Some (exampleJob ''processing'')))],
       tick_cid = ''mcp-1-abc'', tick_now = 30\<rparr>,
      \<lparr>tick_world = [Responds 20 (respond 200 [] (Some (exampleJob ''completed'')))],
       tick_cid = ''mcp-2-def'', tick_now = 560\<rparr>]"
  have run: "waitForConversion exampleClient exampleUuid ?o 0 ?ticks
     = (Some (Inr (exampleJob ''completed'')),
      [Fetch statusUrl (sentInit None ''mcp-1-abc''), Sleep 500,
       Fetch statusUrl (sentInit None ''mcp-2-def'')])"
    by (simp add: waitForConversion_def valid_exampleUuid orDefault_def status_answered exampleJob_def)
  from waitForConversion_state_machine[OF valid_exampleUuid, of exampleClient ?o 0 ?ticks]
  obtain P T where eq: "\<forall>r tr. waitForConversion exampleClient exampleUuid ?o 0 ?ticks = (r, tr)
                     \<longleftrightarrow> polls exampleClient exampleUuid P T 0 ?ticks r tr"
    and P: "P = 500" and T: "T = 300000"
    by auto
  from eq run have "polls exampleClient exampleUuid P T 0 ?ticks (Some (Inr (exampleJob ''completed'')))
      [Fetch statusUrl (sentInit None ''mcp-1-abc''), Sleep 500,
       Fetch statusUrl (sentInit None ''mcp-2-def'')]" by blast
  with run P T show ?thesis by blast
qed

text \<open>
  Claim C4 as stated fails for a configured timeout of 0. One millisecond after the
  start the status is \<open>processing\<close>: the state machine with the configured timeout 0
  fails with a timeout error, the code sleeps for the poll interval and goes on.
\<close>

theorem waitForConversion_zero_timeout_counterexample:
  "polls exampleClient exampleUuid 2000 0 0
     [\<lparr>tick_world = [Responds 20 (respond 200 [] (Some (exampleJob ''processing'')))],
       tick_cid = ''mcp-1-abc'', tick_now = 1\<rparr>]
     (Some (Inl (ConversionTimedOut 0 ''processing'')))
     [Fetch statusUrl (sentInit None ''mcp-1-abc'')]
   \<and> waitForConversion exampleClient exampleUuid \<lparr>pollInterval = None, wait_timeout = Some 0\<rparr> 0
     [\<lparr>tick_world = [Responds 20 (respond 200 [] (Some (exampleJob ''processing'')))],
       tick_cid = ''mcp-1-abc'', tick_now = 1\<rparr>]
     = (None, [Fetch statusUrl (sentInit None ''mcp-1-abc''), Sleep 2000])"
proof -
  have a: "polls exampleClient exampleUuid 2000 0 0
     [\<lparr>tick_world = [Responds 20 (respond 200 [] (Some (exampleJob ''processing'')))],
       tick_cid = ''mcp-1-abc'', tick_now = 1\<rparr>]
     (Some (Inl (ConversionTimedOut 0 ''processing'')))
     [Fetch statusUrl (sentInit None ''mcp-1-abc'')]"
    by (simp add: waitLoop_polls status_answered exampleJob_def)
  have b: "waitForConversion exampleClient exampleUuid \<lparr>pollInterval = None, wait_timeout = Some 0\<rparr> 0
     [\<lparr>tick_world = [Responds 20 (respond 200 [] (Some (exampleJob ''processing'')))],
       tick_cid = ''mcp-1-abc'', tick_now = 1\<rparr>]
     = (None, [Fetch statusUrl (sentInit None ''mcp-1-abc''), Sleep 2000])"
    by (simp add: waitForConversion_def valid_exampleUuid orDefault_def status_answered exampleJob_def)
  from a b show ?thesis by blast
qed


text \<open>
  Claim C10. For every identifier and all options, a timeout error of
  \<open>waitForConversion\<close> comes after at least one status fetch and reports a status that
  is neither \<open>completed\<close> nor \<open>failed\<close>; and when the first status fetched is
  \<open>completed\<close> or \<open>failed\<close>, that status is returned.
\<close>

theorem waitForConversion_fetches_before_timeout:
  "(fst (waitForConversion c ident options start ticks) = Some (Inl (ConversionTimedOut T s))
      \<longrightarrow> 0 < fetches (snd (waitForConversion c ident options start ticks))
          \<and> s \<noteq> ''completed'' \<and> s \<noteq> ''failed'')
   \<and> (isValidUuid ident
        \<and> getConversionStatus c ident (tick_world t) (tick_cid t) = (Inr st, tr)
        \<and> (job_status st = ''completed'' \<or> job_status st = ''failed'')
      \<longrightarrow> waitForConversion c ident options start (t # ts) = (Some (Inr st), tr))"
proof -
  have A: "0 < fetches (snd (waitForConversion c ident options start ticks))
          \<and> s \<noteq> ''completed'' \<and> s \<noteq> ''failed''"
    if a: "fst (waitForConversion c ident options start ticks) = Some (Inl (ConversionTimedOut T s))"
  proof -
    obtain r tr' where w: "waitForConversion c ident options start ticks = (r, tr')"
      by (cases "waitForConversion c ident options start ticks")
    with a have r: "r = Some (Inl (ConversionTimedOut T s))" by simp
    have v: "isValidUuid ident"
      using w r by (auto simp: waitForConversion_def Let_def split: if_splits)
    with w r have "waitLoop c ident (orDefault (pollInterval options) 2000)
        (orDefault (wait_timeout options) 300000) start ticks
          = (Some (Inl (ConversionTimedOut T s)), tr')"
      by (simp add: waitForConversion_def)
    from waitLoop_timeout[OF this] w show ?thesis by simp
  qed
  have B: "waitForConversion c ident options start (t # ts) = (Some (Inr st), tr)"
    if "isValidUuid ident
        \<and> getConversionStatus c ident (tick_world t) (tick_cid t) = (Inr st, tr)
        \<and> (job_status st = ''completed'' \<or> job_status st = ''failed'')"
    using that by (auto simp: waitForConversion_def)
  from A B show ?thesis by blast
qed

theorem waitForConversion_fetches_before_timeout_witness:
  "waitForConversion exampleClient exampleUuid \<lparr>pollInterval = None, wait_timeout = Some 0\<rparr> 0
     [\<lparr>tick_world = [Responds 20 (respond 200 [] (Some (exampleJob ''processing'')))],
       tick_cid = ''mcp-1-abc'', tick_now = 300001\<rparr>]
     = (Some (Inl (ConversionTimedOut 300000 ''processing'')),
        [Fetch statusUrl (sentInit None ''mcp-1-abc'')])
   \<and> 0 < fetches (snd (waitForConversion exampleClient exampleUuid
          \<lparr>pollInterval = None, wait_timeout = Some 0\<rparr> 0
          [\<lparr>tick_world = [Responds 20 (respond 200 [] (Some (exampleJob ''processing'')))],
            tick_cid = ''mcp-1-abc'', tick_now = 300001\<rparr>]))
   \<and> waitForConversion exampleClient exampleUuid \<lparr>pollInterval = None, wait_timeout = Some 0\<rparr> 0
     [\<lparr>tick_world = [Responds 20 (respond 200 [] (Some (exampleJob ''failed'')))],
       tick_cid = ''mcp-1-abc'', tick_now = 300001\<rparr>]
     = (Some (Inr (exampleJob ''failed'')), [Fetch statusUrl (sentInit None ''mcp-1-abc'')])"
proof -
  let ?o = "\<lparr>pollInterval = None, wait_timeout = Some 0\<rparr>"
  let ?t = "\<lambda>s. \<lparr>tick_world = [Responds 20 (respond 200 [] (Some (exampleJob s)))],
            tick_cid = ''mcp-1-abc'', tick_now = 300001\<rparr>"
  have run: "waitForConversion exampleClient exampleUuid ?o 0 [?t ''processing'']
     = (Some (Inl (ConversionTimedOut 300000 ''processing'')),
        [Fetch statusUrl (sentInit None ''mcp-1-abc'')])"
    by (simp add: waitForConversion_def valid_exampleUuid orDefault_def status_answered exampleJob_def)
  note th = waitForConversion_fetches_before_timeout[of exampleClient exampleUuid ?o 0 _ 300000
      "''processing''" "?t ''failed''" "exampleJob ''failed''"
      "[Fetch statusUrl (sentInit None ''mcp-1-abc'')]" "[]"]
  have f: "0 < fetches (snd (waitForConversion exampleClient exampleUuid ?o 0 [?t ''processing'']))"
    using th[of "[?t ''processing'']"] run by simp
  have g: "getConversionStatus exampleClient exampleUuid (tick_world (?t ''failed'')) (tick_cid (?t ''failed''))
      = (Inr (exampleJob ''failed''), [Fetch statusUrl (sentInit None ''mcp-1-abc'')])"
    by (simp add: status_answered)
  have j: "job_status (exampleJob ''failed'') = ''failed''" by (simp add: exampleJob_def)
  have t: "waitForConversion exampleClient exampleUuid ?o 0 [?t ''failed'']
     = (Some (Inr (exampleJob ''failed'')), [Fetch statusUrl (sentInit None ''mcp-1-abc'')])"
    using th[of "[]"] valid_exampleUuid g j by blast
  from run f t show ?thesis by simp
qed

subsection \<open>The format cache\<close>

lemma first_call_caches:
  assumes "getSupportedFormats c False now1 world cid now2 = (Inr d, c1, tr1)"
  shows "\<exists>entry. formatCache c1 = Some entry \<and> data entry = d"
  using assms
  by (auto simp: getSupportedFormats_def Let_def split: option.splits if_splits prod.splits sum.splits)

lemma one_request_at_most:
  assumes "getSupportedFormats c skipCache now1 world cid now2 = (r1, c1, tr1)"
  shows "tr1 = [] \<or> tr1 = snd (request c ''/convert/formats'' emptyInit world cid)"
  using assms
  by (auto simp: getSupportedFormats_def Let_def split: option.splits if_splits prod.splits sum.splits)

lemma cache_hit:
  assumes "formatCache c = Some entry" and "now - timestamp entry < FORMAT_CACHE_TTL"
  shows "getSupportedFormats c False now world cid now' = (Inr (data entry), c, [])"
  using assms by (simp add: getSupportedFormats_def Let_def)

lemma cache_miss:
  assumes "skipCache \<or> formatCache c = None
           \<or> (\<exists>entry. formatCache c = Some entry \<and> FORMAT_CACHE_TTL \<le> now - timestamp entry)"
  shows "getSupportedFormats c skipCache now world cid now' =
           (case request c ''/convert/formats'' emptyInit world cid of
              (Inl e, tr) \<Rightarrow> (Inl e, c, tr)
            | (Inr d, tr) \<Rightarrow> (Inr d, c\<lparr>formatCache := Some \<lparr>data = d, timestamp = now'\<rparr>\<rparr>, tr))"
  using assms by (auto simp: getSupportedFormats_def Let_def split: option.splits)

text \<open>
  Claim C5. Take two calls of \<open>getSupportedFormats\<close> without the bypass flag, the second
  made while the entry that the cache holds after the first is younger than the TTL of
  one hour. The second call returns the data of that entry and performs no fetch, and
  the first call performed the fetches of at most one request; a first call that
  returned the formats has left such an entry, with the data it returned. A call with
  the bypass flag, with an empty cache or with an entry as old as the TTL issues one
  request and, when it succeeds, stores its response with the current time.
\<close>

theorem getSupportedFormats_cache:
  "(getSupportedFormats c False now1 world cid now2 = (r1, c1, tr1)
      \<and> formatCache c1 = Some entry \<and> now3 - timestamp entry < FORMAT_CACHE_TTL
    \<longrightarrow> getSupportedFormats c1 False now3 world' cid' now4 = (Inr (data entry), c1, [])
        \<and> (tr1 = [] \<or> tr1 = snd (request c ''/convert/formats'' emptyInit world cid))
        \<and> (\<forall>d. r1 = Inr d \<longrightarrow> d = data entry))
   \<and> (getSupportedFormats c False now1 world cid now2 = (Inr d, c1, tr1)
    \<longrightarrow> (\<exists>e. formatCache c1 = Some e \<and> data e = d))
   \<and> (skipCache \<or> formatCache c = None
        \<or> (\<exists>e. formatCache c = Some e \<and> FORMAT_CACHE_TTL \<le> now1 - timestamp e)
    \<longrightarrow> getSupportedFormats c skipCache now1 world cid now2 =
          (case request c ''/convert/formats'' emptyInit world cid of
             (Inl e, tr) \<Rightarrow> (Inl e, c, tr)
           | (Inr d', tr) \<Rightarrow> (Inr d', c\<lparr>formatCache := Some \<lparr>data = d', timestamp = now2\<rparr>\<rparr>, tr))
        \<and> 0 < fetches (snd (snd (getSupportedFormats c skipCache now1 world cid now2))))
   \<and> FORMAT_CACHE_TTL = 60 * 60 * 1000"
proof -
  have A: "getSupportedFormats c1 False now3 world' cid' now4 = (Inr (data entry), c1, [])
        \<and> (tr1 = [] \<or> tr1 = snd (request c ''/convert/formats'' emptyInit world cid))
        \<and> (\<forall>d. r1 = Inr d \<longrightarrow> d = data entry)"
    if h: "getSupportedFormats c False now1 world cid now2 = (r1, c1, tr1)
      \<and> formatCache c1 = Some entry \<and> now3 - timestamp entry < FORMAT_CACHE_TTL"
  proof -
    from h have e: "formatCache c1 = Some entry" "now3 - timestamp entry < FORMAT_CACHE_TTL"
      and f: "getSupportedFormats c False now1 world cid now2 = (r1, c1, tr1)"
      by blast+
    have "d = data entry" if "r1 = Inr d" for d
      using first_call_caches[of c now1 world cid now2 d c1 tr1] f that e(1) by auto
    with cache_hit[OF e, of world' cid' now4] one_request_at_most[OF f]
    show ?thesis by blast
  qed
  have A': "getSupportedFormats c False now1 world cid now2 = (Inr d, c1, tr1)
    \<longrightarrow> (\<exists>e. formatCache c1 = Some e \<and> data e = d)"
    using first_call_caches by blast
  have B: "getSupportedFormats c skipCache now1 world cid now2 =
          (case request c ''/convert/formats'' emptyInit world cid of
             (Inl e, tr) \<Rightarrow> (Inl e, c, tr)
           | (Inr d', tr) \<Rightarrow> (Inr d', c\<lparr>formatCache := Some \<lparr>data = d', timestamp = now2\<rparr>\<rparr>, tr))
        \<and> 0 < fetches (snd (snd (getSupportedFormats c skipCache now1 world cid now2)))"
    if h: "skipCache \<or> formatCache c = None
        \<or> (\<exists>e. formatCache c = Some e \<and> FORMAT_CACHE_TTL \<le> now1 - timestamp e)"
  proof -
    note m = cache_miss[OF h, of world cid now2]
    have "0 < fetches (snd (snd (getSupportedFormats c skipCache now1 world cid now2)))"
      unfolding m using request_fetches[of c "''/convert/formats''" emptyInit world cid]
      by (auto split: prod.splits sum.splits)
    with m show ?thesis by blast
  qed
  have C: "FORMAT_CACHE_TTL = 60 * 60 * 1000" by (simp add: FORMAT_CACHE_TTL_def)
  from A A' B C show ?thesis by blast
qed

lemma request_answered:
  "request exampleClient endpoint emptyInit [Responds 20 (respond 200 [] (Some j))] cid
     = (Inr j, [Fetch (''https://converteverything.io/api'' @ endpoint) (sentInit None cid)])"
  by (simp add: request_def fetchWithRetry_def exampleClient_def loop_unfold reply_at_def
        iteration_def tryBlock_def respond_def RETRYABLE_STATUS_CODES_def ok_def emptyInit_def
        spread_def sentInit_def)

theorem getSupportedFormats_cache_witness:
  "getSupportedFormats exampleClient False 0
       [Responds 20 (respond 200 [] (Some exampleFormats))] ''mcp-1-abc'' 1000
     = (Inr exampleFormats, cachedClient 1000, [Fetch formatsUrl (sentInit None ''mcp-1-abc'')])
   \<and> getSupportedFormats (cachedClient 1000) False 3000000
       [Responds 20 (respond 200 [] (Some exampleFormats))] ''mcp-2-def'' 3000020
     = (Inr exampleFormats, cachedClient 1000, [])
   \<and> getSupportedFormats (cachedClient 1000) False 3601000
       [Responds 20 (respond 200 [] (Some exampleFormats))] ''mcp-3-ghi'' 3601020
     = (Inr exampleFormats, cachedClient 3601020, [Fetch formatsUrl (sentInit None ''mcp-3-ghi'')])"
proof -
  let ?w = "[Responds 20 (respond 200 [] (Some exampleFormats))]"
  have one: "getSupportedFormats exampleClient False 0 ?w ''mcp-1-abc'' 1000
     = (Inr exampleFormats, cachedClient 1000, [Fetch formatsUrl (sentInit None ''mcp-1-abc'')])"
    by (simp add: getSupportedFormats_def request_answered cachedClient_def formatsUrl_def)
       (simp add: exampleClient_def)
  have fresh: "formatCache (cachedClient 1000) = Some \<lparr>data = exampleFormats, timestamp = 1000\<rparr>
      \<and> 3000000 - timestamp \<lparr>data = exampleFormats, timestamp = 1000\<rparr> < FORMAT_CACHE_TTL"
    by (simp add: cachedClient_def FORMAT_CACHE_TTL_def)
  have stale: "\<exists>e. formatCache (cachedClient 1000) = Some e
      \<and> FORMAT_CACHE_TTL \<le> 3601000 - timestamp e"
    by (simp add: cachedClient_def FORMAT_CACHE_TTL_def)
  have two: "getSupportedFormats (cachedClient 1000) False 3000000 ?w ''mcp-2-def'' 3000020
     = (Inr exampleFormats, cachedClient 1000, [])"
    using getSupportedFormats_cache[where c = exampleClient and ?now1.0 = 0 and world = ?w
        and cid = "''mcp-1-abc''" and ?now2.0 = 1000 and ?r1.0 = "Inr exampleFormats"
        and ?c1.0 = "cachedClient 1000" and ?tr1.0 = "[Fetch formatsUrl (sentInit None ''mcp-1-abc'')]"
        and entry = "\<lparr>data = exampleFormats, timestamp = 1000\<rparr>"
        and ?now3.0 = 3000000 and world' = ?w and cid' = "''mcp-2-def''" and ?now4.0 = 3000020]
      one fresh by simp
  have req: "request (cachedClient 1000) ''/convert/formats'' emptyInit ?w ''mcp-3-ghi''
      = (Inr exampleFormats, [Fetch formatsUrl (sentInit None ''mcp-3-ghi'')])"
    using request_answered[of "''/convert/formats''" exampleFormats "''mcp-3-ghi''"]
    by (simp add: request_def fetchWithRetry_def cachedClient_def formatsUrl_def)
  have three: "getSupportedFormats (cachedClient 1000) False 3601000 ?w ''mcp-3-ghi'' 3601020
     = (Inr exampleFormats, cachedClient 3601020, [Fetch formatsUrl (sentInit None ''mcp-3-ghi'')])"
  proof -
    from getSupportedFormats_cache[where c = "cachedClient 1000" and skipCache = False
        and ?now1.0 = 3601000 and world = ?w and cid = "''mcp-3-ghi''" and ?now2.0 = 3601020] stale
    have "getSupportedFormats (cachedClient 1000) False 3601000 ?w ''mcp-3-ghi'' 3601020 =
          (case request (cachedClient 1000) ''/convert/formats'' emptyInit ?w ''mcp-3-ghi'' of
             (Inl e, tr) \<Rightarrow> (Inl e, cachedClient 1000, tr)
           | (Inr d', tr) \<Rightarrow>
               (Inr d', (cachedClient 1000)\<lparr>formatCache := Some \<lparr>data = d', timestamp = 3601020\<rparr>\<rparr>, tr))"
      by blast
    then show ?thesis unfolding req by (simp add: cachedClient_def)
  qed
  from one two three show ?thesis by blast
qed

subsection \<open>Validation before the network\<close>

lemma constructor_rejects_bad_key:
  "\<not> startsWith key ''ce_'' \<Longrightarrow>
   ConvertEverythingClient pf \<lparr>cfg_apiKey = key, cfg_baseUrl = b, cfg_timeout = t\<rparr>
     = (Inl (if key = [] then ApiKeyRequired else InvalidApiKeyFormat), [])"
  by (simp add: ConvertEverythingClient_def)

lemma invalid_id_no_network:
  assumes "\<not> isValidUuid ident"
  shows "getConversionStatus c ident w cid = (Inl InvalidConversionId, [])"
    and "downloadFile c pf ident w cid now reply = (Inl InvalidConversionId, [])"
    and "waitForConversion c ident opts start ticks = (Some (Inl InvalidConversionId), [])"
    and "cancelConversion c ident w cid w' cid' = (Inl InvalidConversionId, [])"
    and "retryConversion c ident w cid = (Inl InvalidConversionId, [])"
  using assms
  by (simp_all add: getConversionStatus_def downloadFile_def waitForConversion_def
        cancelConversion_def retryConversion_def)

lemma rejected_format_no_network:
  assumes "\<not> isFormatSupported (stripLeadingDot (toLowerCase fmt))"
  shows "\<exists>e. convertFileBuffer c pf payload name fmt options w cid = (Inl e, [])"
    and "\<exists>e. convertFile c pf path fmt options w cid = (Inl e, [])"
  using assms
  by (auto simp: convertFileBuffer_def convertFile_def Let_def split: sum.splits)

lemma oversized_no_network:
  shows "maxSize < length b \<Longrightarrow>
           convertFileBuffer c pf (Bytes b) name fmt options w cid = (Inl FileTooLarge, [])"
    and "maxSize < length (fromBase64 pf (stripDataUrlPrefix s)) \<Longrightarrow>
           convertFileBuffer c pf (Base64 s) name fmt options w cid = (Inl FileTooLarge, [])"
    and "validateFilePath pf path = Inr rp \<Longrightarrow> maxSize < length (readFileSync pf rp) \<Longrightarrow>
           \<exists>e. convertFile c pf path fmt options w cid = (Inl e, [])"
  by (auto simp: convertFileBuffer_def convertFile_def Let_def)

lemma maxSize_is_10GiB: "maxSize = 10 * 2 ^ 30"
  by (simp add: maxSize_def)

lemma not_in_table: "''constructor'' \<notin> set (map fst FORMAT_CATEGORIES)"
  by (simp add: FORMAT_CATEGORIES_def)

lemma lower_constructor: "toLowerCase ''constructor'' = ''constructor''"
  by (simp add: toLowerCase_def lowerChar_def)

lemma supported_constructor: "isFormatSupported ''constructor''"
  by (simp add: isFormatSupported_def lower_constructor objectPrototypeKeys_def)

lemma sanitize_song: "sanitizeFilename ''song.wav'' = ''song.wav''"
  by code_simp

lemma d400: "decimal 400 = ''400''" by code_simp

text \<open>
  The local checks come before any fetch. Every input that a check of the client finds
  invalid is rejected with an empty list of events: the constructor fails on a key that
  does not start with \<open>ce_\<close>; \<open>getConversionStatus\<close>, \<open>downloadFile\<close>,
  \<open>waitForConversion\<close>, \<open>cancelConversion\<close> and \<open>retryConversion\<close> raise on an
  identifier that is no UUID; \<open>convertFile\<close> and \<open>convertFileBuffer\<close> raise on a
  target format that \<open>isFormatSupported\<close> rejects and on a payload of more than 10 GiB.
\<close>

lemma validation_before_network:
  "(\<not> startsWith key ''ce_'' \<longrightarrow>
      ConvertEverythingClient pf \<lparr>cfg_apiKey = key, cfg_baseUrl = b, cfg_timeout = t\<rparr>
        = (Inl (if key = [] then ApiKeyRequired else InvalidApiKeyFormat), []))
   \<and> (\<not> isValidUuid ident \<longrightarrow>
        getConversionStatus c ident w cid = (Inl InvalidConversionId, [])
      \<and> downloadFile c pf ident w cid now reply = (Inl InvalidConversionId, [])
      \<and> waitForConversion c ident opts start ticks = (Some (Inl InvalidConversionId), [])
      \<and> cancelConversion c ident w cid w' cid' = (Inl InvalidConversionId, [])
      \<and> retryConversion c ident w cid = (Inl InvalidConversionId, []))
   \<and> (\<not> isFormatSupported (stripLeadingDot (toLowerCase fmt)) \<longrightarrow>
        (\<exists>e. convertFileBuffer c pf payload name fmt options w cid = (Inl e, []))
      \<and> (\<exists>e. convertFile c pf path fmt options w cid = (Inl e, [])))
   \<and> (maxSize < length bs \<longrightarrow>
        convertFileBuffer c pf (Bytes bs) name fmt options w cid = (Inl FileTooLarge, []))
   \<and> (maxSize < length (fromBase64 pf (stripDataUrlPrefix s)) \<longrightarrow>
        convertFileBuffer c pf (Base64 s) name fmt options w cid = (Inl FileTooLarge, []))
   \<and> (validateFilePath pf path = Inr rp \<and> maxSize < length (readFileSync pf rp) \<longrightarrow>
        (\<exists>e. convertFile c pf path fmt options w cid = (Inl e, [])))
   \<and> maxSize = 10 * 2 ^ 30"
proof -
  have A: "\<not> startsWith key ''ce_'' \<longrightarrow>
      ConvertEverythingClient pf \<lparr>cfg_apiKey = key, cfg_baseUrl = b, cfg_timeout = t\<rparr>
        = (Inl (if key = [] then ApiKeyRequired else InvalidApiKeyFormat), [])"
    by (simp add: constructor_rejects_bad_key)
  have B: "\<not> isValidUuid ident \<longrightarrow>
        getConversionStatus c ident w cid = (Inl InvalidConversionId, [])
      \<and> downloadFile c pf ident w cid now reply = (Inl InvalidConversionId, [])
      \<and> waitForConversion c ident opts start ticks = (Some (Inl InvalidConversionId), [])
      \<and> cancelConversion c ident w cid w' cid' = (Inl InvalidConversionId, [])
      \<and> retryConversion c ident w cid = (Inl InvalidConversionId, [])"
    by (simp add: invalid_id_no_network)
  have C: "\<not> isFormatSupported (stripLeadingDot (toLowerCase fmt)) \<longrightarrow>
        (\<exists>e. convertFileBuffer c pf payload name fmt options w cid = (Inl e, []))
      \<and> (\<exists>e. convertFile c pf path fmt options w cid = (Inl e, []))"
    using rejected_format_no_network[of fmt] by blast
  have D: "maxSize < length bs \<longrightarrow>
        convertFileBuffer c pf (Bytes bs) name fmt options w cid = (Inl FileTooLarge, [])"
    using oversized_no_network(1) by blast
  have E: "maxSize < length (fromBase64 pf (stripDataUrlPrefix s)) \<longrightarrow>
        convertFileBuffer c pf (Base64 s) name fmt options w cid = (Inl FileTooLarge, [])"
    using oversized_no_network(2) by blast
  have F: "validateFilePath pf path = Inr rp \<and> maxSize < length (readFileSync pf rp) \<longrightarrow>
        (\<exists>e. convertFile c pf path fmt options w cid = (Inl e, []))"
    using oversized_no_network(3) by blast
  from A B C D E F maxSize_is_10GiB show ?thesis by blast
qed

lemma invalid_examples:
  "\<not> startsWith ''sk_live_123'' ''ce_''" "\<not> isValidUuid ''not-a-uuid''"
  "\<not> isFormatSupported (stripLeadingDot (toLowerCase ''.XYZ''))"
  by code_simp+

lemma validation_before_network_examples:
  "ConvertEverythingClient examplePlatform
       \<lparr>cfg_apiKey = ''sk_live_123'', cfg_baseUrl = None, cfg_timeout = None\<rparr>
     = (Inl InvalidApiKeyFormat, [])
   \<and> getConversionStatus exampleClient ''not-a-uuid'' [Responds 20 (respond 200 [] None)] ''mcp-1-abc''
     = (Inl InvalidConversionId, [])
   \<and> downloadFile exampleClient examplePlatform ''not-a-uuid'' [Responds 20 (respond 200 [] None)]
       ''mcp-1-abc'' 0 Silent = (Inl InvalidConversionId, [])
   \<and> cancelConversion exampleClient ''not-a-uuid'' [Responds 20 (respond 200 [] None)] ''mcp-1-abc''
       [Responds 20 (respond 200 [] None)] ''mcp-2-def'' = (Inl InvalidConversionId, [])
   \<and> retryConversion exampleClient ''not-a-uuid'' [Responds 20 (respond 200 [] None)] ''mcp-1-abc''
     = (Inl InvalidConversionId, [])
   \<and> convertFileBuffer exampleClient examplePlatform (Bytes [82, 73, 70, 70]) ''song.wav'' ''.XYZ''
       None [Responds 20 (respond 200 [] None)] ''mcp-1-abc''
     = (Inl (UnsupportedTargetFormat ''.XYZ''), [])
   \<and> convertFileBuffer exampleClient examplePlatform (Bytes (replicate (Suc maxSize) 0)) ''song.wav''
       ''mp3'' None [Responds 20 (respond 200 [] None)] ''mcp-1-abc''
     = (Inl FileTooLarge, [])"
proof -
  note th = validation_before_network[where key = "''sk_live_123''" and pf = examplePlatform
      and b = None and t = None and ident = "''not-a-uuid''" and c = exampleClient
      and w = "[Responds 20 (respond 200 [] None)]" and cid = "''mcp-1-abc''" and now = 0
      and reply = Silent and w' = "[Responds 20 (respond 200 [] None)]" and cid' = "''mcp-2-def''"
      and fmt = "''.XYZ''" and payload = "Bytes [82, 73, 70, 70]" and name = "''song.wav''"
      and options = None]
  have a: "ConvertEverythingClient examplePlatform
       \<lparr>cfg_apiKey = ''sk_live_123'', cfg_baseUrl = None, cfg_timeout = None\<rparr>
     = (Inl InvalidApiKeyFormat, [])"
    using th invalid_examples(1) by simp
  have b: "getConversionStatus exampleClient ''not-a-uuid'' [Responds 20 (respond 200 [] None)] ''mcp-1-abc''
     = (Inl InvalidConversionId, [])
   \<and> downloadFile exampleClient examplePlatform ''not-a-uuid'' [Responds 20 (respond 200 [] None)]
       ''mcp-1-abc'' 0 Silent = (Inl InvalidConversionId, [])
   \<and> cancelConversion exampleClient ''not-a-uuid'' [Responds 20 (respond 200 [] None)] ''mcp-1-abc''
       [Responds 20 (respond 200 [] None)] ''mcp-2-def'' = (Inl InvalidConversionId, [])
   \<and> retryConversion exampleClient ''not-a-uuid'' [Responds 20 (respond 200 [] None)] ''mcp-1-abc''
     = (Inl InvalidConversionId, [])"
    using th invalid_examples(2) by blast
  from th invalid_examples(3)
  obtain e where e: "convertFileBuffer exampleClient examplePlatform (Bytes [82, 73, 70, 70])
       ''song.wav'' ''.XYZ'' None [Responds 20 (respond 200 [] None)] ''mcp-1-abc'' = (Inl e, [])"
    by blast
  have "e = UnsupportedTargetFormat ''.XYZ''"
    using e invalid_examples(3) by (simp add: convertFileBuffer_def maxSize_def)
  with e have c: "convertFileBuffer exampleClient examplePlatform (Bytes [82, 73, 70, 70]) ''song.wav''
       ''.XYZ'' None [Responds 20 (respond 200 [] None)] ''mcp-1-abc''
     = (Inl (UnsupportedTargetFormat ''.XYZ''), [])" by simp
  have big: "maxSize < length (replicate (Suc maxSize) (0::nat))" by simp
  have d: "convertFileBuffer exampleClient examplePlatform (Bytes (replicate (Suc maxSize) 0)) ''song.wav''
       ''mp3'' None [Responds 20 (respond 200 [] None)] ''mcp-1-abc''
     = (Inl FileTooLarge, [])"
    using validation_before_network[where bs = "replicate (Suc maxSize) 0" and c = exampleClient
        and pf = examplePlatform and name = "''song.wav''" and fmt = "''mp3''" and options = None
        and w = "[Responds 20 (respond 200 [] None)]" and cid = "''mcp-1-abc''"] big
    by blast
  from a b c d show ?thesis by blast
qed

text \<open>
  Claim C6 at a failing input. The target format \<open>constructor\<close> is no key of the table
  of formats, so it is an unsupported format; but the check of the target format is the
  operator \<open>in\<close> on the table, and the table inherits a property of that name from
  \<open>Object.prototype\<close>. \<open>convertFileBuffer\<close> does not raise before the network: the
  upload is sent, and the error comes from the answer of the server.
\<close>

theorem unlisted_format_reaches_network:
  "''constructor'' \<notin> set (map fst FORMAT_CATEGORIES)
   \<and> convertFileBuffer exampleClient examplePlatform (Bytes [82, 73, 70, 70]) ''song.wav''
       ''constructor'' None [Responds 20 (respond 400 [] None)] ''mcp-1-abc''
     = (Inl (ApiError ''API error: 400  (correlation-id: mcp-1-abc)''),
        [Fetch ''https://converteverything.io/api/convert''
           ((sentInit (Some ''POST'') ''mcp-1-abc'')
              \<lparr>init_body := Some \<lparr>form_file = [82, 73, 70, 70], form_filename = ''song.wav'',
                                   form_output_format = ''constructor'', form_options = None\<rparr>\<rparr>)])"
proof -
  have run: "convertFileBuffer exampleClient examplePlatform (Bytes [82, 73, 70, 70]) ''song.wav''
       ''constructor'' None [Responds 20 (respond 400 [] None)] ''mcp-1-abc''
     = (Inl (ApiError ''API error: 400  (correlation-id: mcp-1-abc)''),
        [Fetch ''https://converteverything.io/api/convert''
           ((sentInit (Some ''POST'') ''mcp-1-abc'')
              \<lparr>init_body := Some \<lparr>form_file = [82, 73, 70, 70], form_filename = ''song.wav'',
                                   form_output_format = ''constructor'', form_options = None\<rparr>\<rparr>)])"
    by (simp add: convertFileBuffer_def maxSize_def lower_constructor supported_constructor
          sanitize_song request_def fetchWithRetry_def exampleClient_def loop_unfold reply_at_def
          iteration_def tryBlock_def respond_def RETRYABLE_STATUS_CODES_def ok_def
          spread_def sentInit_def d400)
  with not_in_table show ?thesis by blast
qed

subsection \<open>The base address\<close>

lemma stripTrailingSlashes_last:
  "stripTrailingSlashes s = [] \<or> last (stripTrailingSlashes s) \<noteq> CHR ''/''"
proof (cases "dropWhile (\<lambda>c. c = CHR ''/'') (rev s)")
  case Nil
  then show ?thesis by (simp add: stripTrailingSlashes_def)
next
  case (Cons x xs)
  then have "x \<noteq> CHR ''/''" using hd_dropWhile[of "\<lambda>c. c = CHR ''/''" "rev s"] by auto
  with Cons show ?thesis by (simp add: stripTrailingSlashes_def)
qed

lemma replaceFirst_prefix:
  "startsWith s pat \<Longrightarrow> replaceFirst s pat rep = rep @ drop (length pat) s"
  by (cases s) (auto simp: startsWith_def)

lemma startsWith_append: "startsWith s p \<Longrightarrow> s = p @ drop (length p) s"
  by (metis append_take_drop_id startsWith_def)

lemma sanitizeUrl_shape:
  "sanitizeUrl pf url =
     (let s = stripTrailingSlashes url;
          s' = (if startsWith s ''http://'' \<and> \<not> includesStr s ''localhost''
                then ''https://'' @ drop (length ''http://'') s else s)
      in if urlParses pf s' then Inr s' else Inl (InvalidBaseUrl url))"
  by (simp only: sanitizeUrl_def Let_def replaceFirst_prefix split: if_splits cong: if_cong)

lemma sanitizeUrl_upgrades:
  assumes "startsWith (stripTrailingSlashes url) ''http://''"
    and "\<not> includesStr (stripTrailingSlashes url) ''localhost''"
    and "sanitizeUrl pf url = Inr u"
  shows "startsWith u ''https://''"
proof -
  define x where "x = ''https://'' @ drop (length ''http://'') (stripTrailingSlashes url)"
  have "sanitizeUrl pf url = (if urlParses pf x then Inr x else Inl (InvalidBaseUrl url))"
    unfolding sanitizeUrl_shape Let_def x_def using assms(1,2) by (simp only: simp_thms if_True)
  with assms(3) have "u = x" by (simp split: if_splits)
  then show ?thesis unfolding x_def startsWith_def by simp
qed

lemma sanitizeUrl_no_trailing_slash:
  assumes "sanitizeUrl pf url = Inr u"
  shows "u = [] \<or> last u \<noteq> CHR ''/''"
proof -
  define s where "s = stripTrailingSlashes url"
  define rest where "rest = drop (length ''http://'') s"
  have sl: "s = [] \<or> last s \<noteq> CHR ''/''" unfolding s_def by (rule stripTrailingSlashes_last)
  show ?thesis
  proof (cases "startsWith s ''http://'' \<and> \<not> includesStr s ''localhost''")
    case False
    with assms have "u = s"
      unfolding sanitizeUrl_shape Let_def s_def[symmetric] by (simp split: if_splits)
    with sl show ?thesis by simp
  next
    case True
    with assms have u: "u = ''https://'' @ rest"
      unfolding sanitizeUrl_shape Let_def s_def[symmetric] rest_def by (simp split: if_splits)
    from True have s: "s = ''http://'' @ rest"
      unfolding rest_def using startsWith_append[of s "''http://''"] by blast
    have ne: "rest \<noteq> []"
    proof
      assume "rest = []"
      with s have "s = ''http://''" by simp
      with sl show False by simp
    qed
    have "last u = last rest" unfolding u using ne by simp
    also have "\<dots> = last s" using ne by (subst s) simp
    finally show ?thesis using sl s by auto
  qed
qed

lemma sanitizeUrl_malformed:
  assumes "sanitizeUrl pf url = Inr u"
  shows "urlParses pf u"
  using assms by (auto simp: sanitizeUrl_def Let_def split: if_splits)

lemma constructor_fails_on_malformed_address:
  assumes "\<forall>u. \<not> urlParses pf u"
  shows "\<exists>e. ConvertEverythingClient pf config = (Inl e, [])"
  using assms
  by (auto simp: ConvertEverythingClient_def sanitizeUrl_def Let_def split: sum.splits)

lemma strip_example:
  "stripTrailingSlashes ''http://example.com/localhost/'' = ''http://example.com/localhost''"
  by (simp add: stripTrailingSlashes_def)

lemma includes_example: "includesStr ''http://example.com/localhost'' ''localhost''"
  by (simp add: startsWith_def)

text \<open>
  Claim C7 at a failing input. The base address \<open>http://example.com/localhost/\<close> uses
  the scheme \<open>http\<close> and its host is \<open>example.com\<close>; the word \<open>localhost\<close> is in its
  path. The constructor removes the slash at the end and keeps the scheme: the client
  stores an \<open>http\<close> address.
\<close>

theorem insecure_address_is_kept:
  "ConvertEverythingClient examplePlatform
      \<lparr>cfg_apiKey = ''ce_test'', cfg_baseUrl = Some ''http://example.com/localhost/'', cfg_timeout = None\<rparr>
    = (Inr (exampleClient\<lparr>baseUrl := ''http://example.com/localhost''\<rparr>), [])"
  by (simp add: ConvertEverythingClient_def orElse_def sanitizeUrl_def strip_example includes_example
        Let_def examplePlatform_def orDefault_def DEFAULT_TIMEOUT_def CLIENT_VERSION_def
        DEFAULT_MAX_RETRIES_def exampleClient_def)
     (simp add: startsWith_def)

subsection \<open>File names\<close>

lemma sanitize_passwd: "sanitizeFilename ''../../etc/passwd'' = ''passwd''"
  by code_simp

lemma sanitize_empty: "sanitizeFilename [] = ''file''"
  by code_simp

lemma afterLast_no_sep: "sep \<notin> set (afterLast sep s)"
  using set_takeWhileD[of sep "\<lambda>c. c \<noteq> sep" "rev s"] by (auto simp: afterLast_def)

lemma afterLast_id: "sep \<notin> set s \<Longrightarrow> afterLast sep s = s"
proof -
  assume "sep \<notin> set s"
  then have tw: "takeWhile (\<lambda>c. c \<noteq> sep) (rev s) = rev s"
    by (auto simp: takeWhile_eq_all_conv)
  show ?thesis unfolding afterLast_def tw by simp
qed

lemma set_afterLast: "set (afterLast sep s) \<subseteq> set s"
  using set_takeWhileD[of _ "\<lambda>c. c \<noteq> sep" "rev s"] by (auto simp: afterLast_def)

lemma stripTrailingSlashes_id: "CHR ''/'' \<notin> set s \<Longrightarrow> stripTrailingSlashes s = s"
  by (cases "rev s") (auto simp: stripTrailingSlashes_def)

lemma set_stripTrailingSlashes: "set (stripTrailingSlashes s) \<subseteq> set s"
  using set_dropWhileD[of _ "\<lambda>c. c = CHR ''/''" "rev s"] by (auto simp: stripTrailingSlashes_def)

lemma basename_no_slash: "CHR ''/'' \<notin> set (basename p)"
  by (simp add: basename_def afterLast_no_sep)

lemma basename_id: "CHR ''/'' \<notin> set s \<Longrightarrow> basename s = s"
  by (simp add: basename_def stripTrailingSlashes_id afterLast_id)

lemma split_at_last:
  assumes "sep \<in> set s"
  shows "\<exists>pre. s = pre @ sep # afterLast sep s"
proof -
  let ?P = "\<lambda>c. c \<noteq> sep"
  have "dropWhile ?P (rev s) \<noteq> []" using assms by (simp add: dropWhile_eq_Nil_conv)
  then obtain x xs where d: "dropWhile ?P (rev s) = x # xs" by (cases "dropWhile ?P (rev s)") auto
  then have "x = sep" using hd_dropWhile[of ?P "rev s"] by auto
  with d have "rev s = takeWhile ?P (rev s) @ sep # xs"
    using takeWhile_dropWhile_id[of ?P "rev s"] by simp
  then have "s = rev (takeWhile ?P (rev s) @ sep # xs)" by (metis rev_rev_ident)
  then have "s = rev xs @ sep # afterLast sep s" by (simp add: afterLast_def)
  then show ?thesis by blast
qed


lemma endsWith_append: "endsWith (xs @ ys) ys"
  by (simp add: endsWith_def)

lemma extname_cases:
  assumes "CHR ''/'' \<notin> set name"
  shows "extname name = []
         \<or> (\<exists>pre. pre \<noteq> [] \<and> name = pre @ extname name \<and> extname name \<noteq> [])"
proof (cases "extname name = []")
  case True
  then show ?thesis by simp
next
  case False
  let ?tail = "afterLast (CHR ''.'') name"
  from assms have b: "basename name = name" by (rule basename_id)
  from False b have dot: "CHR ''.'' \<in> set name" and len: "length ?tail + 1 \<noteq> length name"
    and ext: "extname name = CHR ''.'' # ?tail"
    by (auto simp: extname_def Let_def split: if_splits)
  from split_at_last[OF dot] obtain pre where pre: "name = pre @ CHR ''.'' # ?tail" by blast
  have "pre \<noteq> []"
  proof
    assume "pre = []"
    with pre have "length name = length ?tail + 1" by (metis append_Nil length_Cons Suc_eq_plus1)
    with len show False by simp
  qed
  with pre ext show ?thesis by auto
qed

lemma basename2_strips_ext:
  assumes "CHR ''/'' \<notin> set name" and "name = pre @ ext" and "pre \<noteq> []" and "ext \<noteq> []"
  shows "basename2 name ext = pre"
proof -
  from assms(1) have b: "basename name = name" by (rule basename_id)
  have "ext \<noteq> name" using assms(2,3) by auto
  moreover have "\<not> length name < length ext" using assms(2) by simp
  moreover have "endsWith name ext" unfolding assms(2) by (rule endsWith_append)
  moreover have "take (length name - length ext) name = pre" unfolding assms(2) by simp
  ultimately show ?thesis using assms(4) b by (simp add: basename2_def Let_def)
qed

lemma truncated_name:
  assumes "CHR ''/'' \<notin> set name" and "255 < length name"
  shows "take (255 - length (extname name)) (basename2 name (extname name)) @ extname name
         = take (255 - length (extname name)) name @ extname name"
proof -
  from extname_cases[OF assms(1)]
  consider "extname name = []"
    | pre where "pre \<noteq> []" "name = pre @ extname name" "extname name \<noteq> []" by blast
  then show ?thesis
  proof cases
    case 1
    then show ?thesis using basename_id[OF assms(1)] by (simp add: basename2_def)
  next
    case 2
    note b = basename2_strips_ext[OF assms(1) 2(2) 2(1) 2(3)]
    have "255 - length (extname name) \<le> length pre"
      using assms(2) by (subst (asm) 2(2)) simp
    then have "take (255 - length (extname name)) name = take (255 - length (extname name)) pre"
      by (subst 2(2)) simp
    with b show ?thesis by simp
  qed
qed

lemma set_extname: "set (extname name) \<subseteq> set name"
proof -
  have "set (basename name) \<subseteq> set name"
    using set_afterLast[of "CHR ''/''" "stripTrailingSlashes name"] set_stripTrailingSlashes[of name]
    by (auto simp: basename_def)
  moreover have "set (afterLast (CHR ''.'') (basename name)) \<subseteq> set (basename name)"
    by (rule set_afterLast)
  ultimately show ?thesis by (auto simp: extname_def Let_def)
qed


lemma withoutControls_sound: "\<forall>c\<in>set (withoutControls s). \<not> isControl c"
  by (simp add: withoutControls_def)

lemma set_withoutControls: "set (withoutControls s) \<subseteq> set s"
  by (auto simp: withoutControls_def)

lemma cleaned_no_slash: "CHR ''/'' \<notin> set (withoutControls (basename filename))"
  using basename_no_slash[of filename] set_withoutControls[of "basename filename"] by blast

lemma sanitizeFilename_long:
  assumes "255 < length (withoutControls (basename filename))"
  shows "sanitizeFilename filename
         = take (255 - length (extname (withoutControls (basename filename))))
             (withoutControls (basename filename))
           @ extname (withoutControls (basename filename))"
proof -
  define name where "name = withoutControls (basename filename)"
  define r where "r = take (255 - length (extname name)) name @ extname name"
  have long: "255 < length name" using assms by (simp add: name_def)
  have len: "255 \<le> length r" using long by (simp add: r_def)
  have ne: "r \<noteq> []" using len by auto
  have nd: "r \<noteq> ''.''"
  proof
    assume "r = ''.''"
    then have "length r = 1" by simp
    with len show False by simp
  qed
  have t: "take (255 - length (extname name)) (basename2 name (extname name)) @ extname name = r"
    unfolding r_def name_def by (rule truncated_name[OF cleaned_no_slash assms])
  have "sanitizeFilename filename = (if r = [] \<or> r = ''.'' then ''file'' else r)"
    unfolding sanitizeFilename_def Let_def name_def[symmetric] using long by (simp only: t if_True)
  with ne nd have "sanitizeFilename filename = r" by simp
  then show ?thesis unfolding r_def name_def .
qed

lemma sanitizeFilename_short:
  assumes "length (withoutControls (basename filename)) \<le> 255"
  shows "sanitizeFilename filename
         = (if withoutControls (basename filename) = [] \<or> withoutControls (basename filename) = ''.''
            then ''file'' else withoutControls (basename filename))"
  using assms by (simp add: sanitizeFilename_def Let_def)

lemma set_sanitizeFilename:
  "set (sanitizeFilename filename) \<subseteq> set (withoutControls (basename filename)) \<union> set ''file''"
proof (cases "255 < length (withoutControls (basename filename))")
  case True
  have "set (take n (withoutControls (basename filename))) \<subseteq> set (withoutControls (basename filename))" for n
    by (rule set_take_subset)
  with set_extname[of "withoutControls (basename filename)"] show ?thesis
    unfolding sanitizeFilename_long[OF True] by auto
next
  case False
  then show ?thesis by (auto simp: sanitizeFilename_short)
qed

lemma file_chars: "CHR ''/'' \<notin> set ''file''" "\<forall>c\<in>set ''file''. \<not> isControl c"
  by (simp_all add: isControl_def)

text \<open>
  What \<open>sanitizeFilename\<close> computes. It keeps the base name only, so
  \<open>../../etc/passwd\<close> gives \<open>passwd\<close> and no result contains a separator; no result
  contains a character of the ranges 00-1F and 80-9F. A name that, after these two
  steps, has more than 255 characters becomes its first \<open>255 - length ext\<close> characters
  followed by its extension \<open>ext\<close>, which are exactly 255 characters when the extension
  has at most 255. A shorter name is returned as it is, except that the empty name and
  the name \<open>.\<close> give \<open>file\<close>; the empty string gives \<open>file\<close>.
\<close>

lemma sanitizeFilename_properties:
  "CHR ''/'' \<notin> set (sanitizeFilename filename)
   \<and> sanitizeFilename ''../../etc/passwd'' = ''passwd''
   \<and> (\<forall>c\<in>set (sanitizeFilename filename). \<not> isControl c)
   \<and> (255 < length (withoutControls (basename filename)) \<longrightarrow>
        sanitizeFilename filename
          = take (255 - length (extname (withoutControls (basename filename))))
              (withoutControls (basename filename))
            @ extname (withoutControls (basename filename))
      \<and> (length (extname (withoutControls (basename filename))) \<le> 255 \<longrightarrow>
           length (sanitizeFilename filename) = 255))
   \<and> (length (withoutControls (basename filename)) \<le> 255 \<longrightarrow>
        sanitizeFilename filename
          = (if withoutControls (basename filename) = [] \<or> withoutControls (basename filename) = ''.''
             then ''file'' else withoutControls (basename filename)))
   \<and> sanitizeFilename [] = ''file''"
proof -
  let ?name = "withoutControls (basename filename)"
  have A: "CHR ''/'' \<notin> set (sanitizeFilename filename)"
    using set_sanitizeFilename[of filename] cleaned_no_slash[of filename] file_chars(1) by blast
  have B: "\<forall>c\<in>set (sanitizeFilename filename). \<not> isControl c"
    using set_sanitizeFilename[of filename] withoutControls_sound[of "basename filename"] file_chars(2)
    by blast
  have C: "sanitizeFilename filename = take (255 - length (extname ?name)) ?name @ extname ?name
      \<and> (length (extname ?name) \<le> 255 \<longrightarrow> length (sanitizeFilename filename) = 255)"
    if h: "255 < length ?name"
  proof -
    note l = sanitizeFilename_long[OF h]
    have "length (sanitizeFilename filename) = 255" if "length (extname ?name) \<le> 255"
      unfolding l using h that by simp
    with l show ?thesis by blast
  qed
  have D: "length ?name \<le> 255 \<longrightarrow> sanitizeFilename filename
          = (if ?name = [] \<or> ?name = ''.'' then ''file'' else ?name)"
    using sanitizeFilename_short by blast
  from A B C D sanitize_passwd sanitize_empty show ?thesis by blast
qed


lemma long_example:
  "withoutControls (basename (replicate 300 (CHR ''a'') @ ''.txt'')) = replicate 300 (CHR ''a'') @ ''.txt''"
  "extname (replicate 300 (CHR ''a'') @ ''.txt'') = ''.txt''"
  "take 251 (replicate 300 (CHR ''a'') @ ''.txt'') @ ''.txt'' = replicate 251 (CHR ''a'') @ ''.txt''"
  by code_simp+

lemma short_example:
  "withoutControls (basename (''/tmp/re'' @ [CHR 0x07] @ ''port.pdf'')) = ''report.pdf''"
  by code_simp

lemma sanitizeFilename_examples:
  "sanitizeFilename (''/tmp/re'' @ [CHR 0x07] @ ''port.pdf'') = ''report.pdf''
   \<and> sanitizeFilename (replicate 300 (CHR ''a'') @ ''.txt'') = replicate 251 (CHR ''a'') @ ''.txt''
   \<and> length (sanitizeFilename (replicate 300 (CHR ''a'') @ ''.txt'')) = 255"
proof -
  note short = sanitizeFilename_properties[of "''/tmp/re'' @ [CHR 0x07] @ ''port.pdf''"]
  note long = sanitizeFilename_properties[of "replicate 300 (CHR ''a'') @ ''.txt''"]
  have a: "sanitizeFilename (''/tmp/re'' @ [CHR 0x07] @ ''port.pdf'') = ''report.pdf''"
    using short unfolding short_example by simp
  have h: "255 < length (replicate 300 (CHR ''a'') @ ''.txt'')" by simp
  have b: "sanitizeFilename (replicate 300 (CHR ''a'') @ ''.txt'') = replicate 251 (CHR ''a'') @ ''.txt''"
    using long h unfolding long_example(1) long_example(2) by (simp add: long_example(3))
  have c: "length (sanitizeFilename (replicate 300 (CHR ''a'') @ ''.txt'')) = 255"
    using long h unfolding long_example(1) long_example(2) by simp
  from a b c show ?thesis by blast
qed

text \<open>
  Claim C8 at a failing input. A name of more than 255 characters is to be truncated to
  255 characters, its extension kept. The name \<open>a.\<close> followed by 300 letters \<open>b\<close> has
  302 characters, and its extension, from the dot on, has 301. The number of characters
  to keep of the base, \<open>255 - ext.length\<close>, is negative, \<open>substring\<close> keeps nothing, and
  the result is the whole extension: 301 characters, more than the limit of 255 that the
  step is there to enforce.
\<close>

theorem sanitizeFilename_overlong_extension:
  "length (''a.'' @ replicate 300 (CHR ''b'')) = 302
   \<and> sanitizeFilename (''a.'' @ replicate 300 (CHR ''b'')) = CHR ''.'' # replicate 300 (CHR ''b'')
   \<and> length (sanitizeFilename (''a.'' @ replicate 300 (CHR ''b''))) = 301
   \<and> 255 < length (sanitizeFilename (''a.'' @ replicate 300 (CHR ''b'')))"
  by code_simp

end
